theory Spec2Isabelle
  imports Main "HOL-Library.AList"
begin

section \<open>Shared data model (interfaces/data.ts, as used by the sources)\<close>

text \<open>
  A JavaScript object whose values are \<open>boolean | undefined\<close> is an association list from
  property name to \<open>bool option\<close>: \<open>Some True\<close> and \<open>Some False\<close> are the booleans and
  \<open>None\<close> is a property that is present with the value \<open>undefined\<close> (or \<open>null\<close>).
  Reading a property is \<open>map_of\<close>; a key that is not in the list is an absent property.
\<close>

type_synonym Selector = "(string \<times> bool option) list"

text \<open>The user's \<open>Fields\<close>: every part is optional; \<open>log\<close> may carry the extra key \<open>transaction\<close>.\<close>

record Fields =
  block :: "Selector option"
  transaction :: "Selector option"
  log :: "Selector option"

text \<open>\<open>Range\<close> is \<open>{from: number, to?: number}\<close>.\<close>

record Range =
  range_from :: int
  range_to :: "int option"

record LogRequest =
  address :: "string list option"
  topics_filter :: "string list list option"

record TransactionRequest =
  tx_from :: "string list option"
  tx_to :: "string list option"
  sighash :: "string list option"

record DataRequest =
  includeAllBlocks :: "bool option"
  logs :: "LogRequest list option"
  transactions :: "TransactionRequest list option"
  req_fields :: "Fields option"

record BatchRequest =
  brange :: Range
  request :: DataRequest

definition empty_request :: DataRequest where
  "empty_request =
     \<lparr>includeAllBlocks = None, logs = None, transactions = None, req_fields = None\<rparr>"

text \<open>JavaScript truthiness of an optional boolean.\<close>

definition truthy :: "bool option \<Rightarrow> bool" where
  "truthy b = (b = Some True)"


section \<open>The batch processor's configuration (processor.ts)\<close>

text \<open>An option value of type \<open>string | string[]\<close>.\<close>

datatype str_or_list = Str string | Arr "string list"

record LogOptions =
  opt_address :: "str_or_list option"
  opt_filter :: "string list list option"
  opt_log_range :: "Range option"

record TransactionOptions =
  opt_to :: "str_or_list option"
  opt_from :: "str_or_list option"
  opt_sighash :: "str_or_list option"
  opt_tx_range :: "Range option"

record DataSource =
  archive :: "string option"
  chain :: "string option"

datatype port = PortNumber int | PortString string

text \<open>
  Exceptions. \<open>Error\<close> carries the message of \<open>new Error(...)\<close>; the others are the
  failures of \<open>assert\<close>, of \<open>BigInt\<close>, of the HTTP client and of the SQL connection. The
  context objects that \<open>withErrorContext\<close> and \<open>addErrorContext\<close> attach are left out.
\<close>

datatype error =
    Error string
  | AssertionError
  | SyntaxError
  | TransportError string
  | QueryFailedError string

text \<open>
  The private fields of \<open>EvmBatchProcessor\<close>. \<open>prometheusPort\<close> is the port held by the
  memoised Prometheus server that \<open>setPrometheusPort\<close> writes.
\<close>

record EvmBatchProcessor =
  requests :: "BatchRequest list"
  proc_src :: "DataSource option"
  blockRange :: "Range option"
  proc_fields :: "Fields option"
  running :: bool
  prometheusPort :: "port option"

definition new_processor :: EvmBatchProcessor where
  "new_processor =
     \<lparr>requests = [], proc_src = None, blockRange = None, proc_fields = None,
      running = False, prometheusPort = None\<rparr>"

text \<open>
  String.prototype.toLowerCase on the ASCII range (the hex strings of addresses, topics
  and sighashes are ASCII): \<open>A..Z\<close> are moved to \<open>a..z\<close>, every other byte is kept.
\<close>

definition lower_char :: "char \<Rightarrow> char" where
  "lower_char c =
     (let n = (of_char c :: nat) in if 65 \<le> n \<and> n \<le> 90 then char_of (n + 32) else c)"

definition toLowerCase :: "string \<Rightarrow> string" where
  "toLowerCase s = map lower_char s"

definition toRequestList :: "str_or_list option \<Rightarrow> string list option" where
  "toRequestList val =
     (case val of
        None \<Rightarrow> None
      | Some v \<Rightarrow>
          (let val = (case v of Str s \<Rightarrow> [s] | Arr xs \<Rightarrow> xs)
           in if length val = 0 then None else Some (map toLowerCase val)))"

definition concatRequestLists :: "'a list option \<Rightarrow> 'a list option \<Rightarrow> 'a list option" where
  "concatRequestLists a b =
     (let result = [];
          result = (case a of Some xs \<Rightarrow> result @ xs | None \<Rightarrow> result);
          result = (case b of Some ys \<Rightarrow> result @ ys | None \<Rightarrow> result)
      in if length result = 0 then None else Some result)"

text \<open>
  A call of a processor method returns the exception it threw, if any, together with the
  processor as the call left it.
\<close>

type_synonym 'a call = "'a \<Rightarrow> error option \<times> 'a"

definition assertNotRunning :: "EvmBatchProcessor \<Rightarrow> error option" where
  "assertNotRunning p =
     (if running p
      then Some (Error ''Settings modifications are not allowed after start of processing'')
      else None)"

definition add :: "DataRequest \<Rightarrow> Range option \<Rightarrow> EvmBatchProcessor \<Rightarrow> EvmBatchProcessor" where
  "add req rng p =
     p\<lparr>requests := requests p @
         [\<lparr>brange = (case rng of Some r \<Rightarrow> r | None \<Rightarrow> \<lparr>range_from = 0, range_to = None\<rparr>),
           request = req\<rparr>]\<rparr>"

definition setFields :: "Fields \<Rightarrow> EvmBatchProcessor call" where
  "setFields f p =
     (case assertNotRunning p of
        Some e \<Rightarrow> (Some e, p)
      | None \<Rightarrow> (None, p\<lparr>proc_fields := Some f\<rparr>))"

definition addLog :: "LogOptions \<Rightarrow> EvmBatchProcessor call" where
  "addLog options p =
     (case assertNotRunning p of
        Some e \<Rightarrow> (Some e, p)
      | None \<Rightarrow>
          (None,
           add (empty_request
                 \<lparr>logs := Some
                    [\<lparr>address = toRequestList (opt_address options),
                      topics_filter =
                        (case opt_filter options of
                           None \<Rightarrow> None
                         | Some fl \<Rightarrow> if length fl \<noteq> 0 then Some fl else None)\<rparr>]\<rparr>)
               (opt_log_range options) p))"

definition addTransaction :: "TransactionOptions \<Rightarrow> EvmBatchProcessor call" where
  "addTransaction options p =
     (case assertNotRunning p of
        Some e \<Rightarrow> (Some e, p)
      | None \<Rightarrow>
          (None,
           add (empty_request
                 \<lparr>transactions := Some
                    [\<lparr>tx_from = toRequestList (opt_from options),
                      tx_to = toRequestList (opt_to options),
                      sighash = toRequestList (opt_sighash options)\<rparr>]\<rparr>)
               (opt_tx_range options) p))"

definition setPrometheusPort :: "port \<Rightarrow> EvmBatchProcessor call" where
  "setPrometheusPort prt p =
     (case assertNotRunning p of
        Some e \<Rightarrow> (Some e, p)
      | None \<Rightarrow> (None, p\<lparr>prometheusPort := Some prt\<rparr>))"

definition includeAllBlocks_range :: "Range option \<Rightarrow> EvmBatchProcessor call" where
  "includeAllBlocks_range rng p =
     (case assertNotRunning p of
        Some e \<Rightarrow> (Some e, p)
      | None \<Rightarrow> (None, add (empty_request\<lparr>includeAllBlocks := Some True\<rparr>) rng p))"

definition setBlockRange :: "Range option \<Rightarrow> EvmBatchProcessor call" where
  "setBlockRange rng p =
     (case assertNotRunning p of
        Some e \<Rightarrow> (Some e, p)
      | None \<Rightarrow> (None, p\<lparr>blockRange := rng\<rparr>))"

definition setDataSource :: "DataSource \<Rightarrow> EvmBatchProcessor call" where
  "setDataSource s p =
     (case assertNotRunning p of
        Some e \<Rightarrow> (Some e, p)
      | None \<Rightarrow> (None, p\<lparr>proc_src := Some s\<rparr>))"

text \<open>
  \<open>run\<close>, up to the point where it hands the asynchronous program to \<open>runProgram\<close>: the
  check, then the flag. What the program does later (and its failures, which end the
  process) happens after \<open>run\<close> has returned; the database and the handler are only used
  there.
\<close>

definition run :: "EvmBatchProcessor call" where
  "run p =
     (case assertNotRunning p of
        Some e \<Rightarrow> (Some e, p)
      | None \<Rightarrow> (None, p\<lparr>running := True\<rparr>))"

text \<open>The function \<open>merge\<close> that \<open>getBatchRequests\<close> hands to \<open>mergeBatchRequests\<close>.\<close>

definition merge :: "DataRequest \<Rightarrow> DataRequest \<Rightarrow> DataRequest" where
  "merge a b =
     (let res = empty_request;
          res = (if truthy (includeAllBlocks a) \<or> truthy (includeAllBlocks b)
                 then res\<lparr>includeAllBlocks := Some True\<rparr> else res);
          res = res\<lparr>logs := concatRequestLists (logs a) (logs b)\<rparr>;
          res = res\<lparr>transactions := concatRequestLists (transactions a) (transactions b)\<rparr>
      in res)"

text \<open>The block \<open>if (this.fields) requests.forEach(req => req.request.fields = this.fields)\<close>.\<close>

definition applyFields :: "Fields option \<Rightarrow> BatchRequest list \<Rightarrow> BatchRequest list" where
  "applyFields fs reqs =
     (case fs of
        Some f \<Rightarrow> map (\<lambda>req. req\<lparr>request := (request req)\<lparr>req_fields := Some f\<rparr>\<rparr>) reqs
      | None \<Rightarrow> reqs)"

text \<open>
  \<open>mergeBatchRequests\<close> and \<open>applyRangeBound\<close> come from another package; they are the
  parameters \<open>mergeBatchRequests\<close> and \<open>applyRangeBound\<close> here.
\<close>

definition getBatchRequests ::
  "(BatchRequest list \<Rightarrow> (DataRequest \<Rightarrow> DataRequest \<Rightarrow> DataRequest) \<Rightarrow> BatchRequest list) \<Rightarrow>
   (BatchRequest list \<Rightarrow> Range option \<Rightarrow> BatchRequest list) \<Rightarrow>
   EvmBatchProcessor \<Rightarrow> BatchRequest list" where
  "getBatchRequests mergeBatchRequests applyRangeBound p =
     (let reqs = mergeBatchRequests (requests p) merge;
          reqs = applyFields (proc_fields p) reqs
      in applyRangeBound reqs (blockRange p))"


section \<open>The archive client (ds-archive/client.ts)\<close>

subsection \<open>Field selection\<close>

text \<open>The gateway's \<open>FieldSelection\<close>: one mask per entity, each optional.\<close>

record FieldSelection =
  fs_block :: "Selector option"
  fs_transaction :: "Selector option"
  fs_log :: "Selector option"

text \<open>
  \<open>DEFAULT_FIELDS\<close> is imported from interfaces/data.ts; the functions below take it as
  the parameter \<open>D\<close>.
\<close>

record DefaultFields =
  default_block :: Selector
  default_transaction :: Selector
  default_log :: Selector

text \<open>
  Modelled from the spec: the constant \<open>DEFAULT_FIELDS\<close> of interfaces/data.ts, which is
  not among the sources. The Glossary gives the default field projection as block
  \<open>{number, hash, parentHash, timestamp}\<close>, transaction \<open>{hash, from, to, input}\<close> and log
  \<open>{address, topics, data, transactionHash}\<close>.
\<close>

definition DEFAULT_FIELDS :: DefaultFields where
  "DEFAULT_FIELDS =
     \<lparr>default_block =
        [(''number'', Some True), (''hash'', Some True), (''parentHash'', Some True),
         (''timestamp'', Some True)],
      default_transaction =
        [(''hash'', Some True), (''from'', Some True), (''to'', Some True),
         (''input'', Some True)],
      default_log =
        [(''address'', Some True), (''topics'', Some True), (''data'', Some True),
         (''transactionHash'', Some True)]\<rparr>"

text \<open>
  One round of the loop of \<open>mergeDefaultFields\<close>: \<open>selection[key] != null\<close> holds for the
  two booleans only.
\<close>

definition mergeDefaultFields_step :: "Selector \<Rightarrow> string \<Rightarrow> Selector \<Rightarrow> Selector" where
  "mergeDefaultFields_step selection key result =
     (case map_of selection key of
        Some (Some b) \<Rightarrow>
          (if b then AList.update key (Some True) result else AList.update key None result)
      | _ \<Rightarrow> result)"

definition mergeDefaultFields :: "Selector \<Rightarrow> Selector option \<Rightarrow> Selector" where
  "mergeDefaultFields defaults selection =
     (case selection of
        None \<Rightarrow> defaults
      | Some sel \<Rightarrow> fold (mergeDefaultFields_step sel) (map fst sel) defaults)"

definition toFieldSelection :: "DefaultFields \<Rightarrow> Fields option \<Rightarrow> FieldSelection" where
  "toFieldSelection D flds =
     (let log_or_empty = (case Option.bind flds log of Some l \<Rightarrow> l | None \<Rightarrow> []);
          logFields = AList.delete ''transaction'' log_or_empty
      in \<lparr>fs_block = Some
            (AList.update ''number'' (Some True)
              (AList.update ''hash'' (Some True)
                (mergeDefaultFields (default_block D) (Option.bind flds block)))),
          fs_transaction = Some
            (AList.update ''index'' (Some True)
              (mergeDefaultFields (default_transaction D) (Option.bind flds transaction))),
          fs_log = Some
            (AList.update ''transactionIndex'' (Some True)
              (AList.update ''index'' (Some True)
                (mergeDefaultFields (default_log D) (Some logFields))))\<rparr>)"

subsection \<open>Gateway wire objects and their mapping\<close>

text \<open>A value of the JSON that the archive sends.\<close>

datatype json =
    JNull
  | JBool bool
  | JNumber int
  | JString string
  | JArray "json list"
  | JObject "(string \<times> json) list"

text \<open>
  A gateway object is its typed keys plus the other own properties, in iteration order.
  The other properties are whatever the reply carries: the mapping functions below loop
  over all of them (\<open>for (key in src)\<close>).
\<close>

record gw_Block =
  number :: int
  hash :: string
  block_props :: "(string \<times> json) list"

record gw_Transaction =
  gtx_index :: int
  gtx_props :: "(string \<times> json) list"

record gw_Log =
  glog_index :: int
  glog_transactionIndex :: int
  glog_props :: "(string \<times> json) list"

record gw_BlockData =
  gw_block :: gw_Block
  gw_block_transactions :: "gw_Transaction list"
  gw_block_logs :: "gw_Log list"

record gw_TransactionRequest =
  gtx_to :: "string list option"
  gtx_from :: "string list option"
  gtx_sighash :: "string list option"
  gtx_fieldSelection :: FieldSelection

record gw_LogRequest =
  glog_address :: "string list option"
  glog_topics :: "string list list"
  glog_fieldSelection :: FieldSelection

record gw_BatchRequest =
  fromBlock :: int
  toBlock :: "int option"
  gw_includeAllBlocks :: bool
  gw_transactions :: "gw_TransactionRequest list"
  gw_logs :: "gw_LogRequest list"

record gw_BatchResponse =
  data :: "gw_BlockData list list"
  nextBlock :: int
  archiveHeight :: int

text \<open>
  What a mapping function stores under a key: the value as it came, the result of
  \<open>Number\<close> (\<open>None\<close> for NaN) or the result of \<open>BigInt\<close>.
\<close>

datatype mapped = Copied json | Number_of "int option" | BigInt_of int

text \<open>
  The header that \<open>mapGatewayBlockHeader\<close> builds. \<open>id\<close> and \<open>height\<close> are JSON values and
  not a string and a number: the default branch of the loop stores a property of the
  reply that is named \<open>id\<close> or \<open>height\<close> over them.
\<close>

record EvmBlock =
  block_id :: json
  height :: json
  block_hash :: string
  header_props :: "(string \<times> mapped) list"

record EvmTransaction =
  tx_id :: string
  tx_index :: int
  tx_props :: "(string \<times> mapped) list"

record EvmLog =
  log_id :: string
  log_index :: int
  log_transactionIndex :: int
  log_props :: "(string \<times> mapped) list"

datatype item = TransactionItem EvmTransaction | LogItem EvmLog "EvmTransaction option"

record FullBlockData =
  header :: EvmBlock
  items :: "item list"

record ClosedRange =
  closed_from :: int
  closed_to :: int

record BatchResponse =
  resp_range :: ClosedRange
  blocks :: "FullBlockData list"
  chainHeight :: int

text \<open>
  What the client takes from outside the sources: the built-ins \<open>BigInt\<close> (which throws a
  SyntaxError on a malformed string, here \<open>None\<close>) and \<open>Number\<close> (whose NaN is \<open>None\<close>),
  and \<open>formatId\<close> and \<open>blockItemOrder\<close> of util.ts. \<open>formatId\<close> is handed the height as the
  header has it.
\<close>

record externals =
  js_BigInt :: "json \<Rightarrow> int option"
  js_Number :: "json \<Rightarrow> int option"
  formatId :: "json \<Rightarrow> string \<Rightarrow> int option \<Rightarrow> string"
  blockItemOrder :: "item \<Rightarrow> item \<Rightarrow> int"

text \<open>The conversion of a value to a number: a number is itself.\<close>

definition to_number :: "externals \<Rightarrow> json \<Rightarrow> int option" where
  "to_number ext v = (case v of JNumber n \<Rightarrow> Some n | _ \<Rightarrow> js_Number ext v)"

text \<open>
  The loop over the keys of a gateway object: \<open>conv\<close> gives what the \<open>switch\<close> assigns for a
  key, \<open>Inr None\<close> where it assigns nothing; the first exception ends the loop.
\<close>

fun map_props ::
  "(string \<Rightarrow> json \<Rightarrow> error + mapped option) \<Rightarrow> (string \<times> json) list \<Rightarrow>
   error + (string \<times> mapped) list" where
  "map_props conv [] = Inr []"
| "map_props conv ((k, v) # kvs) =
     (case conv k v of
        Inl e \<Rightarrow> Inl e
      | Inr r \<Rightarrow>
          (case map_props conv kvs of
             Inl e \<Rightarrow> Inl e
           | Inr rest \<Rightarrow> Inr (case r of None \<Rightarrow> rest | Some m \<Rightarrow> (k, m) # rest)))"

definition to_BigInt :: "externals \<Rightarrow> json \<Rightarrow> error + mapped option" where
  "to_BigInt ext v = (case js_BigInt ext v of None \<Rightarrow> Inl SyntaxError | Some n \<Rightarrow> Inr (Some (BigInt_of n)))"

definition header_key :: "externals \<Rightarrow> string \<Rightarrow> json \<Rightarrow> error + mapped option" where
  "header_key ext key v =
     (if key = ''number'' \<or> key = ''hash'' then Inr None
      else if key = ''timestamp'' then Inr (Some (Number_of (to_number ext v)))
      else if key \<in> set [''nonce'', ''difficulty'', ''totalDifficulty'', ''size'', ''gasUsed'',
                           ''gasLimit'', ''baseFeePerGas'']
      then to_BigInt ext v
      else Inr (Some (Copied v)))"

text \<open>
  The header starts as \<open>{id, height, hash}\<close> and the loop assigns \<open>header[key]\<close> for the keys
  of the reply. The keys \<open>number\<close> and \<open>hash\<close> assign nothing; a key \<open>id\<close> or \<open>height\<close> falls
  into the default branch, which replaces the field.
\<close>

definition mapGatewayBlockHeader :: "externals \<Rightarrow> gw_Block \<Rightarrow> error + EvmBlock" where
  "mapGatewayBlockHeader ext src =
     (case map_props (header_key ext) (block_props src) of
        Inl e \<Rightarrow> Inl e
      | Inr ps \<Rightarrow>
          Inr \<lparr>block_id =
                 (case map_of (rev ps) ''id'' of
                    Some (Copied v) \<Rightarrow> v
                  | _ \<Rightarrow> JString (formatId ext (JNumber (number src)) (hash src) None)),
               height =
                 (case map_of (rev ps) ''height'' of
                    Some (Copied v) \<Rightarrow> v
                  | _ \<Rightarrow> JNumber (number src)),
               block_hash = hash src,
               header_props = filter (\<lambda>(k, m). k \<noteq> ''id'' \<and> k \<noteq> ''height'') ps\<rparr>)"

definition transaction_key :: "externals \<Rightarrow> string \<Rightarrow> json \<Rightarrow> error + mapped option" where
  "transaction_key ext key v =
     (if key \<in> set [''from'', ''to'', ''hash'', ''input'', ''r'', ''s''] then Inr (Some (Copied v))
      else if key \<in> set [''gas'', ''gasPrice'', ''nonce'', ''value'', ''v'', ''maxFeePerGas'',
                           ''maxPriorityFeePerGas'']
      then to_BigInt ext v
      else if key \<in> set [''chainId'', ''yParity''] then Inr (Some (Copied v))
      else Inr None)"

definition mapGatewayTransaction ::
  "externals \<Rightarrow> json \<Rightarrow> string \<Rightarrow> gw_Transaction \<Rightarrow> error + EvmTransaction" where
  "mapGatewayTransaction ext blockHeight blockHash src =
     (case map_props (transaction_key ext) (gtx_props src) of
        Inl e \<Rightarrow> Inl e
      | Inr ps \<Rightarrow>
          Inr \<lparr>tx_id = formatId ext blockHeight blockHash (Some (gtx_index src)),
               tx_index = gtx_index src,
               tx_props = ps\<rparr>)"

definition log_key :: "string \<Rightarrow> json \<Rightarrow> error + mapped option" where
  "log_key key v =
     (if key \<in> set [''transactionHash'', ''address'', ''data'', ''topics''] then Inr (Some (Copied v))
      else Inr None)"

definition mapGatewayLog :: "externals \<Rightarrow> json \<Rightarrow> string \<Rightarrow> gw_Log \<Rightarrow> error + EvmLog" where
  "mapGatewayLog ext blockHeight blockHash src =
     (case map_props log_key (glog_props src) of
        Inl e \<Rightarrow> Inl e
      | Inr ps \<Rightarrow>
          Inr \<lparr>log_id = formatId ext blockHeight blockHash (Some (glog_index src)),
               log_index = glog_index src,
               log_transactionIndex = glog_transactionIndex src,
               log_props = ps\<rparr>)"

text \<open>A loop whose body may throw: the results in order, or the first exception.\<close>

fun map_throwing :: "('a \<Rightarrow> error + 'b) \<Rightarrow> 'a list \<Rightarrow> error + 'b list" where
  "map_throwing f [] = Inr []"
| "map_throwing f (x # xs) =
     (case f x of
        Inl e \<Rightarrow> Inl e
      | Inr y \<Rightarrow> (case map_throwing f xs of Inl e \<Rightarrow> Inl e | Inr ys \<Rightarrow> Inr (y # ys)))"

text \<open>\<open>Array.prototype.sort\<close> with a comparator: a stable insertion sort.\<close>

fun insert_by :: "('a \<Rightarrow> 'a \<Rightarrow> int) \<Rightarrow> 'a \<Rightarrow> 'a list \<Rightarrow> 'a list" where
  "insert_by cmp x [] = [x]"
| "insert_by cmp x (y # ys) = (if cmp x y \<le> 0 then x # y # ys else y # insert_by cmp x ys)"

definition sort_by :: "('a \<Rightarrow> 'a \<Rightarrow> int) \<Rightarrow> 'a list \<Rightarrow> 'a list" where
  "sort_by cmp xs = foldr (insert_by cmp) xs []"

definition mapGatewayBlock :: "externals \<Rightarrow> gw_BlockData \<Rightarrow> error + FullBlockData" where
  "mapGatewayBlock ext src =
     (case mapGatewayBlockHeader ext (gw_block src) of
        Inl e \<Rightarrow> Inl e
      | Inr hdr \<Rightarrow>
          (case map_throwing (mapGatewayTransaction ext (height hdr) (block_hash hdr))
                  (gw_block_transactions src) of
             Inl e \<Rightarrow> Inl e
           | Inr txs \<Rightarrow>
               (case map_throwing (mapGatewayLog ext (height hdr) (block_hash hdr))
                       (gw_block_logs src) of
                  Inl e \<Rightarrow> Inl e
                | Inr ls \<Rightarrow>
                    (let txIndex = map_of (rev (map (\<lambda>t. (tx_index t, t)) txs));
                         its = map TransactionItem txs @
                               map (\<lambda>l. LogItem l (txIndex (log_transactionIndex l))) ls
                     in Inr \<lparr>header = hdr, items = sort_by (blockItemOrder ext) its\<rparr>))))"

definition tryMapGatewayBlock :: "externals \<Rightarrow> gw_BlockData \<Rightarrow> error + FullBlockData" where
  "tryMapGatewayBlock ext src = mapGatewayBlock ext src"

subsection \<open>The finalized batch\<close>

text \<open>
  The HTTP client is a function from the body of a POST \<open>/query\<close> to its outcome.
\<close>

type_synonym http = "gw_BatchRequest \<Rightarrow> error + gw_BatchResponse"

definition query :: "http \<Rightarrow> gw_BatchRequest \<Rightarrow> error + gw_BatchResponse" where
  "query post q = post q"

text \<open>The body that \<open>fetchBlockHeader\<close> posts.\<close>

definition fetchBlockHeader_query :: "int \<Rightarrow> FieldSelection \<Rightarrow> gw_BatchRequest" where
  "fetchBlockHeader_query h fieldSelection =
     \<lparr>fromBlock = h,
      toBlock = Some h,
      gw_includeAllBlocks = True,
      gw_transactions =
        [\<lparr>gtx_to = None, gtx_from = None, gtx_sighash = None,
          gtx_fieldSelection = fieldSelection\<rparr>],
      gw_logs = []\<rparr>"

definition fetchBlockHeader ::
  "externals \<Rightarrow> http \<Rightarrow> int \<Rightarrow> FieldSelection \<Rightarrow> error + EvmBlock" where
  "fetchBlockHeader ext post h fieldSelection =
     (case query post (fetchBlockHeader_query h fieldSelection) of
        Inl e \<Rightarrow> Inl e
      | Inr res \<Rightarrow>
          (if length (data res) \<noteq> 1 then Inl AssertionError
           else if length (data res ! 0) \<noteq> 1 then Inl AssertionError
           else mapGatewayBlockHeader ext (gw_block (data res ! 0 ! 0))))"

definition maybeLast :: "'a list \<Rightarrow> 'a option" where
  "maybeLast xs = (if xs = [] then None else Some (last xs))"

text \<open>
  The comparator \<open>(a, b) => a.header.height - b.header.height\<close>: the subtraction converts
  both heights to numbers, and \<open>sort\<close> takes a NaN result as 0.
\<close>

definition by_height :: "externals \<Rightarrow> FullBlockData \<Rightarrow> FullBlockData \<Rightarrow> int" where
  "by_height ext a b =
     (case (to_number ext (height (header a)), to_number ext (height (header b))) of
        (Some x, Some y) \<Rightarrow> x - y
      | _ \<Rightarrow> 0)"

text \<open>The body of the first POST.\<close>

definition batch_query :: "DefaultFields \<Rightarrow> BatchRequest \<Rightarrow> gw_BatchRequest" where
  "batch_query D req =
     (let flds = req_fields (request req);
          fieldSelection = toFieldSelection D flds;
          log_transaction =
            (case Option.bind flds log of
               None \<Rightarrow> False
             | Some l \<Rightarrow> (case map_of l ''transaction'' of None \<Rightarrow> False | Some v \<Rightarrow> truthy v))
      in \<lparr>fromBlock = range_from (brange req),
          toBlock = range_to (brange req),
          gw_includeAllBlocks = truthy (includeAllBlocks (request req)),
          gw_transactions =
            (case transactions (request req) of
               None \<Rightarrow> []
             | Some txs \<Rightarrow>
                 map (\<lambda>tx. \<lparr>gtx_to = tx_to tx, gtx_from = tx_from tx, gtx_sighash = sighash tx,
                            gtx_fieldSelection = fieldSelection\<lparr>fs_log := None\<rparr>\<rparr>) txs),
          gw_logs =
            (case logs (request req) of
               None \<Rightarrow> []
             | Some ls \<Rightarrow>
                 map (\<lambda>l. \<lparr>glog_address = address l,
                           glog_topics = (case topics_filter l of Some t \<Rightarrow> t | None \<Rightarrow> []),
                           glog_fieldSelection =
                             (if log_transaction then fieldSelection
                              else fieldSelection\<lparr>fs_transaction := None\<rparr>)\<rparr>) ls)\<rparr>)"

text \<open>
  \<open>getFinalizedBatch\<close> returns the bodies it posted, in order, and the batch or the
  exception.
\<close>

definition getFinalizedBatch ::
  "externals \<Rightarrow> DefaultFields \<Rightarrow> http \<Rightarrow> BatchRequest \<Rightarrow>
   gw_BatchRequest list \<times> (error + BatchResponse)" where
  "getFinalizedBatch ext D post req =
     (let q = batch_query D req;
          fieldSelection = toFieldSelection D (req_fields (request req))
      in case query post q of
           Inl e \<Rightarrow> ([q], Inl e)
         | Inr res \<Rightarrow>
             (let lastBlock = nextBlock res - 1;
                  batch = \<lparr>resp_range = \<lparr>closed_from = range_from (brange req),
                                          closed_to = lastBlock\<rparr>,
                           blocks = [],
                           chainHeight = archiveHeight res\<rparr>
              in case map_throwing (tryMapGatewayBlock ext) (concat (data res)) of
                   Inl e \<Rightarrow> ([q], Inl e)
                 | Inr bs \<Rightarrow>
                     (let batch = batch\<lparr>blocks := sort_by (by_height ext) bs\<rparr>
                      in if map_option (\<lambda>b. height (header b)) (maybeLast (blocks batch))
                            \<noteq> Some (JNumber (closed_to (resp_range batch)))
                         then
                           (case fetchBlockHeader ext post (closed_to (resp_range batch))
                                   fieldSelection of
                              Inl e \<Rightarrow>
                                ([q, fetchBlockHeader_query (closed_to (resp_range batch))
                                       fieldSelection], Inl e)
                            | Inr lastBlockHeader \<Rightarrow>
                                ([q, fetchBlockHeader_query (closed_to (resp_range batch))
                                       fieldSelection],
                                 Inr (batch\<lparr>blocks := blocks batch @
                                        [\<lparr>header = lastBlockHeader, items = []\<rparr>]\<rparr>)))
                         else ([q], Inr batch))))"


section \<open>The hot-block change log (typeorm-store/src/hot.ts)\<close>

subsection \<open>Change records and the database\<close>

text \<open>
  Column values are JSON values (the type \<open>json\<close> above): a pre-image is written to the log
  with \<open>JSON.stringify\<close> and read back from a \<open>jsonb\<close> column.
\<close>

text \<open>\<open>Record<string, any>\<close>: property names with their values, in order.\<close>

type_synonym record_fields = "(string \<times> json) list"

text \<open>\<open>ChangeRecord\<close>; the arguments are \<open>table\<close>, \<open>id\<close> and, where present, \<open>fields\<close>.\<close>

datatype ChangeRecord =
    InsertRecord string string
  | UpdateRecord string string record_fields
  | DeleteRecord string string record_fields

record ChangeRow =
  block_height :: int
  index :: nat
  change :: ChangeRecord

text \<open>An entity handed to the tracker: its \<open>id\<close> and its other properties.\<close>

record Entity =
  entity_id :: string
  entity_props :: record_fields

text \<open>
  The database behind the \<open>EntityManager\<close>: a PostgreSQL database (the statements of the
  tracker are PostgreSQL's: \<open>$1::text[]\<close>, \<open>unnest\<close>, \<open>::jsonb\<close>). A table is keyed by the
  primary key \<open>id\<close>; a row gives a value to each of the table's other columns, which
  \<open>columns\<close> lists in the order of \<open>SELECT *\<close>. The schema named \<open>status_schema\<close> holds
  \<open>hot_change_log\<close> and \<open>hot_block\<close>.
\<close>

type_synonym row = "string \<rightharpoonup> json"

record database =
  columns :: "string \<Rightarrow> string list"
  tables :: "string \<Rightarrow> (string \<rightharpoonup> row)"
  status_schema :: string
  hot_change_log :: "ChangeRow list"
  hot_block :: "int list"

subsection \<open>SQL statements\<close>

text \<open>
  An identifier inside a statement is either the result of the driver's \<open>escape\<close> applied
  to a name, or a name interpolated as it is.
\<close>

datatype ident = Escaped string | Raw string

fun ident_text :: "(string \<Rightarrow> string) \<Rightarrow> ident \<Rightarrow> string" where
  "ident_text esc (Escaped n) = esc n"
| "ident_text esc (Raw n) = n"

text \<open>
  \<open>em.connection.driver.escape\<close> of the PostgreSQL driver: the name between double quotes.
\<close>

definition double_quoted :: "string \<Rightarrow> string" where
  "double_quoted n = CHR 0x22 # n @ [CHR 0x22]"

text \<open>
  The statements that hot.ts sends through \<open>em.query\<close>, each with its parameters;
  \<open>sql_text\<close> below gives the text of each.
\<close>

datatype sql =
    SelectEntities ident "string list"
  | InsertChanges ident "int list" "nat list" "ChangeRecord list"
  | SelectChanges ident int
  | DeleteEntity ident string
  | UpdateEntity ident "ident list" "json list" string
  | InsertEntity ident "ident list" "json list"
  | DeleteHotBlock ident int

fun join :: "string \<Rightarrow> string list \<Rightarrow> string" where
  "join sep [] = []"
| "join sep [x] = x"
| "join sep (x # y # ys) = x @ sep @ join sep (y # ys)"

fun sql_text :: "(string \<Rightarrow> string) \<Rightarrow> sql \<Rightarrow> string" where
  "sql_text esc (SelectEntities t ids) =
     ''SELECT * FROM '' @ ident_text esc t @ '' WHERE id = ANY($1::text[])''"
| "sql_text esc (InsertChanges s hs is cs) =
     ''INSERT INTO '' @ ident_text esc s @ ''.hot_change_log (block_height, index, change)'' @
     '' SELECT block_height, index, change::jsonb'' @
     '' FROM unnest($1::int[], $2::int[], $3::text[]) AS i(block_height, index, change)''"
| "sql_text esc (SelectChanges s h) =
     ''SELECT block_height, index, change FROM '' @ ident_text esc s @
     ''.hot_change_log WHERE block_height = ? ORDER BY index DESC''"
| "sql_text esc (DeleteEntity t i) =
     ''DELETE FROM '' @ ident_text esc t @ '' WHERE id = $1''"
| "sql_text esc (UpdateEntity t cols vals i) =
     ''UPDATE '' @ ident_text esc t @ '' SET '' @
     join '', '' (map (\<lambda>c. ident_text esc c @ '' = ?'') cols) @ '' WHERE id = ?''"
| "sql_text esc (InsertEntity t cols vals) =
     ''INSERT INTO '' @ ident_text esc t @ '' ('' @ join '','' (map (ident_text esc) cols) @
     '') VALUES ('' @ join '', '' (map (\<lambda>c. ''?'') cols) @ '')''"
| "sql_text esc (DeleteHotBlock s h) =
     ''DELETE FROM '' @ ident_text esc s @ ''.hot_block WHERE height = ?''"

text \<open>The identifiers interpolated into a statement.\<close>

fun idents :: "sql \<Rightarrow> ident list" where
  "idents (SelectEntities t ids) = [t]"
| "idents (InsertChanges s hs is cs) = [s]"
| "idents (SelectChanges s h) = [s]"
| "idents (DeleteEntity t i) = [t]"
| "idents (UpdateEntity t cols vals i) = t # cols"
| "idents (InsertEntity t cols vals) = t # cols"
| "idents (DeleteHotBlock s h) = [s]"

subsection \<open>What the database does with a statement\<close>

text \<open>
  The database reads the text of a statement before it does anything. PostgreSQL has
  numbered placeholders only (\<open>$1\<close>, \<open>$2\<close>): a question mark outside a quoted identifier is
  an operator character, and none of the statements above is well formed with one where
  a value belongs; a quoted identifier that is not closed is an error as well. The
  statements have no string literal and no comment, so the text is scanned for these
  two only, \<open>quoted\<close> telling whether the scan is inside a quoted identifier.
\<close>

fun pg_scan :: "bool \<Rightarrow> string \<Rightarrow> bool" where
  "pg_scan quoted [] = (\<not> quoted)"
| "pg_scan quoted (c # cs) =
     (if c = CHR 0x22 then pg_scan (\<not> quoted) cs
      else if \<not> quoted \<and> c = CHR ''?'' then False
      else pg_scan quoted cs)"

definition postgres_parses :: "sql \<Rightarrow> bool" where
  "postgres_parses q = pg_scan False (sql_text double_quoted q)"

text \<open>
  What an identifier of the text names. A name between double quotes is taken as it is;
  it cannot be empty, and a double quote inside it ends it early, so that such a name
  is refused. A name that was interpolated without quotes is an identifier only when it
  is a word of PostgreSQL's lexer: a letter, an underscore or a byte above the ASCII
  range, followed by these, digits and dollar signs; PostgreSQL folds its ASCII letters
  to lower case.
\<close>

definition ident_start :: "char \<Rightarrow> bool" where
  "ident_start c =
     (let n = (of_char c :: nat)
      in (65 \<le> n \<and> n \<le> 90) \<or> (97 \<le> n \<and> n \<le> 122) \<or> n = 95 \<or> 128 \<le> n)"

definition ident_cont :: "char \<Rightarrow> bool" where
  "ident_cont c =
     (let n = (of_char c :: nat) in ident_start c \<or> (48 \<le> n \<and> n \<le> 57) \<or> n = 36)"

definition plain_identifier :: "string \<Rightarrow> bool" where
  "plain_identifier n =
     (case n of
        [] \<Rightarrow> False
      | c # cs \<Rightarrow> ident_start c \<and> list_all ident_cont cs)"

fun ident_ok :: "ident \<Rightarrow> bool" where
  "ident_ok (Escaped n) = (n \<noteq> [] \<and> CHR 0x22 \<notin> set n)"
| "ident_ok (Raw n) = plain_identifier n"

fun ident_name :: "ident \<Rightarrow> string" where
  "ident_name (Escaped n) = n"
| "ident_name (Raw n) = toLowerCase n"

text \<open>
  A statement that the database accepts: its text parses and each interpolated name is
  an identifier.
\<close>

definition accepted :: "sql \<Rightarrow> bool" where
  "accepted q = (postgres_parses q \<and> list_all ident_ok (idents q))"

text \<open>The pre-image of a row as \<open>SELECT *\<close> returns it, without the \<open>id\<close>.\<close>

definition row_fields :: "string list \<Rightarrow> row \<Rightarrow> record_fields" where
  "row_fields cols r = List.map_filter (\<lambda>c. map_option (Pair c) (r c)) cols"

text \<open>
  The rows of \<open>SELECT * FROM "t" WHERE id = ANY($1::text[])\<close>, the statement of
  \<open>fetchEntities\<close>, once the database has accepted the text: each matching row once,
  here in the order in which the ids are first listed. The result is split as
  \<open>{id, ...fields}\<close>.
\<close>

fun select_entities :: "sql \<Rightarrow> database \<Rightarrow> (string \<times> record_fields) list" where
  "select_entities (SelectEntities t ids) db =
     List.map_filter
       (\<lambda>i. map_option (\<lambda>r. (i, row_fields (columns db (ident_name t)) r))
              (tables db (ident_name t) i))
       (remdups ids)"
| "select_entities q db = []"

text \<open>
  \<open>SELECT ... FROM s.hot_change_log WHERE block_height = h ORDER BY index DESC\<close>, once
  the database has accepted the text and found the schema.
\<close>

fun selected_changes :: "sql \<Rightarrow> database \<Rightarrow> error + ChangeRow list" where
  "selected_changes (SelectChanges s h) db =
     (if ident_name s \<noteq> status_schema db
      then Inl (QueryFailedError ''relation does not exist'')
      else Inr (rev (sort_key index (filter (\<lambda>r. block_height r = h) (hot_change_log db)))))"
| "selected_changes q db = Inr []"

definition select_changes :: "sql \<Rightarrow> database \<Rightarrow> error + ChangeRow list" where
  "select_changes q db =
     (if \<not> accepted q then Inl (QueryFailedError ''syntax error'')
      else selected_changes q db)"

text \<open>The row that \<open>INSERT\<close> builds: a column without a value is \<open>NULL\<close>.\<close>

definition new_row :: "string list \<Rightarrow> record_fields \<Rightarrow> row" where
  "new_row cols given =
     (\<lambda>c. if c \<in> set cols
          then Some (case map_of given c of Some v \<Rightarrow> v | None \<Rightarrow> JNull)
          else None)"

text \<open>
  What an accepted statement does. A schema other than the status schema, a primary
  key that exists already, an unknown column and a wrong number of parameters are
  errors of the database.
\<close>

fun statement_effect :: "sql \<Rightarrow> database \<Rightarrow> error + database" where
  "statement_effect (SelectEntities t ids) db = Inr db"
| "statement_effect (SelectChanges s h) db = Inr db"
| "statement_effect (InsertChanges s hs is cs) db =
     (if ident_name s \<noteq> status_schema db
      then Inl (QueryFailedError ''relation does not exist'')
      else if length hs \<noteq> length cs \<or> length is \<noteq> length cs
      then Inl (QueryFailedError ''unnest'')
      else if \<exists>r \<in> set (hot_change_log db). (block_height r, index r) \<in> set (zip hs is)
      then Inl (QueryFailedError ''duplicate key'')
      else if \<not> distinct (zip hs is)
      then Inl (QueryFailedError ''duplicate key'')
      else Inr (db\<lparr>hot_change_log := hot_change_log db @
                 map (\<lambda>(h, i, c). \<lparr>block_height = h, index = i, change = c\<rparr>)
                   (zip hs (zip is cs))\<rparr>))"
| "statement_effect (DeleteEntity t i) db =
     Inr (db\<lparr>tables := (tables db)(ident_name t := (tables db (ident_name t))(i := None))\<rparr>)"
| "statement_effect (UpdateEntity t cols vals i) db =
     (if length vals \<noteq> length cols then Inl (QueryFailedError ''parameters'')
      else if \<not> set (map ident_name cols) \<subseteq> set (columns db (ident_name t))
      then Inl (QueryFailedError ''column does not exist'')
      else case tables db (ident_name t) i of
             None \<Rightarrow> Inr db
           | Some r \<Rightarrow>
               Inr (db\<lparr>tables := (tables db)(ident_name t :=
                     (tables db (ident_name t))
                       (i \<mapsto> r ++ map_of (zip (map ident_name cols) vals)))\<rparr>))"
| "statement_effect (InsertEntity t cols vals) db =
     (if length vals \<noteq> length cols then Inl (QueryFailedError ''parameters'')
      else if \<not> set (map ident_name cols) \<subseteq> insert ''id'' (set (columns db (ident_name t)))
      then Inl (QueryFailedError ''column does not exist'')
      else if \<not> distinct (map ident_name cols)
      then Inl (QueryFailedError ''column specified more than once'')
      else case map_of (zip (map ident_name cols) vals) ''id'' of
             Some (JString i) \<Rightarrow>
               (case tables db (ident_name t) i of
                  Some r \<Rightarrow> Inl (QueryFailedError ''duplicate key'')
                | None \<Rightarrow>
                    Inr (db\<lparr>tables := (tables db)(ident_name t :=
                          (tables db (ident_name t))
                            (i \<mapsto> new_row (columns db (ident_name t))
                                    (zip (map ident_name cols) vals)))\<rparr>))
           | _ \<Rightarrow> Inl (QueryFailedError ''id''))"
| "statement_effect (DeleteHotBlock s h) db =
     (if ident_name s \<noteq> status_schema db
      then Inl (QueryFailedError ''relation does not exist'')
      else Inr (db\<lparr>hot_block := removeAll h (hot_block db)\<rparr>))"

text \<open>
  \<open>em.query\<close> for a writing statement: the database rejects a text it cannot read, and
  only then does what the statement says.
\<close>

definition em_query :: "sql \<Rightarrow> database \<Rightarrow> error + database" where
  "em_query q db =
     (if \<not> accepted q then Inl (QueryFailedError ''syntax error'')
      else statement_effect q db)"

subsection \<open>The change tracker\<close>

record ChangeTracker =
  statusSchema :: string
  blockHeight :: int
  tracker_index :: nat

definition new_ChangeTracker :: "string \<Rightarrow> int \<Rightarrow> ChangeTracker" where
  "new_ChangeTracker schema h = \<lparr>statusSchema = schema, blockHeight = h, tracker_index = 0\<rparr>"

definition fetchEntities_sql :: "string \<Rightarrow> string list \<Rightarrow> sql" where
  "fetchEntities_sql t ids = SelectEntities (Escaped t) ids"

text \<open>
  \<open>fetchEntities\<close> is the statement and, when the database accepts it, its rows; the
  callers below raise the error of a statement that it refuses.
\<close>

definition fetchEntities ::
  "string \<Rightarrow> string list \<Rightarrow> database \<Rightarrow> (string \<times> record_fields) list" where
  "fetchEntities t ids db = select_entities (fetchEntities_sql t ids) db"

definition writeChangeRows_sql :: "ChangeTracker \<Rightarrow> ChangeRecord list \<Rightarrow> sql" where
  "writeChangeRows_sql tr changes =
     InsertChanges (Raw (statusSchema tr))
       (replicate (length changes) (blockHeight tr))
       [tracker_index tr ..< tracker_index tr + length changes]
       changes"

definition writeChangeRows ::
  "ChangeTracker \<Rightarrow> ChangeRecord list \<Rightarrow> database \<Rightarrow> error + ChangeTracker \<times> database" where
  "writeChangeRows tr changes db =
     (case em_query (writeChangeRows_sql tr changes) db of
        Inl e \<Rightarrow> Inl e
      | Inr db' \<Rightarrow> Inr (tr\<lparr>tracker_index := tracker_index tr + length changes\<rparr>, db'))"

definition trackInsert ::
  "ChangeTracker \<Rightarrow> string \<Rightarrow> Entity list \<Rightarrow> database \<Rightarrow> error + ChangeTracker \<times> database" where
  "trackInsert tr tableName entities db =
     writeChangeRows tr (map (\<lambda>e. InsertRecord tableName (entity_id e)) entities) db"

definition trackUpsert ::
  "ChangeTracker \<Rightarrow> string \<Rightarrow> Entity list \<Rightarrow> database \<Rightarrow> error + ChangeTracker \<times> database" where
  "trackUpsert tr tableName entities db =
     (if \<not> accepted (fetchEntities_sql tableName (map entity_id entities))
      then Inl (QueryFailedError ''syntax error'')
      else
        let touchedRows = map_of (rev (fetchEntities tableName (map entity_id entities) db))
        in writeChangeRows tr
             (map (\<lambda>e. case touchedRows (entity_id e) of
                          Some flds \<Rightarrow> UpdateRecord tableName (entity_id e) flds
                        | None \<Rightarrow> InsertRecord tableName (entity_id e))
                entities)
             db)"

definition trackDelete ::
  "ChangeTracker \<Rightarrow> string \<Rightarrow> string list \<Rightarrow> database \<Rightarrow> error + ChangeTracker \<times> database" where
  "trackDelete tr tableName ids db =
     (if \<not> accepted (fetchEntities_sql tableName ids)
      then Inl (QueryFailedError ''syntax error'')
      else
        let deletedEntities = fetchEntities tableName ids db
        in writeChangeRows tr
             (map (\<lambda>(i, flds). DeleteRecord tableName i flds) deletedEntities)
             db)"

subsection \<open>Rollback\<close>

text \<open>The statement that the loop of \<open>rollbackBlock\<close> sends for one record, if any.\<close>

fun rollback_sql :: "ChangeRecord \<Rightarrow> sql option" where
  "rollback_sql (InsertRecord t i) = Some (DeleteEntity (Escaped t) i)"
| "rollback_sql (UpdateRecord t i flds) =
     (if length flds \<noteq> 0
      then Some (UpdateEntity (Escaped t) (map (\<lambda>c. Escaped c) (map fst flds)) (map snd flds) i)
      else None)"
| "rollback_sql (DeleteRecord t i flds) =
     Some (InsertEntity (Escaped t) (map (\<lambda>c. Escaped c) (''id'' # map fst flds))
             (JString i # map snd flds))"

fun rollback_changes :: "ChangeRow list \<Rightarrow> database \<Rightarrow> error + database" where
  "rollback_changes [] db = Inr db"
| "rollback_changes (rec # recs) db =
     (case rollback_sql (change rec) of
        None \<Rightarrow> rollback_changes recs db
      | Some q \<Rightarrow>
          (case em_query q db of
             Inl e \<Rightarrow> Inl e
           | Inr db' \<Rightarrow> rollback_changes recs db'))"

definition rollbackBlock :: "string \<Rightarrow> database \<Rightarrow> int \<Rightarrow> error + database" where
  "rollbackBlock schemaName db h =
     (let schema = Escaped schemaName
      in case select_changes (SelectChanges schema h) db of
           Inl e \<Rightarrow> Inl e
         | Inr changes \<Rightarrow>
             (case rollback_changes changes db of
                Inl e \<Rightarrow> Inl e
              | Inr db' \<Rightarrow> em_query (DeleteHotBlock schema h) db'))"

text \<open>
  The statements that \<open>rollbackBlock\<close> builds when its \<open>SELECT\<close> returns the rows
  \<open>changes\<close>, in order.
\<close>

definition rollbackBlock_sql :: "string \<Rightarrow> ChangeRow list \<Rightarrow> int \<Rightarrow> sql list" where
  "rollbackBlock_sql schemaName changes h =
     SelectChanges (Escaped schemaName) h #
     List.map_filter (\<lambda>rec. rollback_sql (change rec)) changes @
     [DeleteHotBlock (Escaped schemaName) h]"

subsection \<open>Well-formed databases\<close>

text \<open>
  A database is well formed when every row has a value for exactly the columns of its
  table, and no table lists \<open>id\<close> among its other columns or lists a column twice.
\<close>

definition well_formed :: "database \<Rightarrow> bool" where
  "well_formed db =
     (\<forall>t. ''id'' \<notin> set (columns db t) \<and> distinct (columns db t) \<and>
          (\<forall>i r. tables db t i = Some r \<longrightarrow> dom r = set (columns db t)))"


section \<open>Vocabulary of the properties\<close>

subsection \<open>Request lists\<close>

text \<open>The strings that an option of type \<open>string | string[]\<close> supplies, in order.\<close>

definition supplied :: "str_or_list option \<Rightarrow> string list" where
  "supplied v = (case v of None \<Rightarrow> [] | Some (Str s) \<Rightarrow> [s] | Some (Arr xs) \<Rightarrow> xs)"

text \<open>The elements of an optional list; an absent list has none.\<close>

definition listed :: "'a list option \<Rightarrow> 'a list" where
  "listed v = (case v of None \<Rightarrow> [] | Some xs \<Rightarrow> xs)"

definition is_upper :: "char \<Rightarrow> bool" where
  "is_upper c = (65 \<le> (of_char c :: nat) \<and> (of_char c :: nat) \<le> 90)"

text \<open>
  A \<open>mergeBatchRequests\<close> for the example: two requests are merged into one over the first
  one's range, any other list is left as it is. A range bound that changes nothing.
\<close>

definition merge_pair ::
  "BatchRequest list \<Rightarrow> (DataRequest \<Rightarrow> DataRequest \<Rightarrow> DataRequest) \<Rightarrow> BatchRequest list" where
  "merge_pair reqs m =
     (case reqs of
        [a, b] \<Rightarrow> [\<lparr>brange = brange a, request = m (request a) (request b)\<rparr>]
      | _ \<Rightarrow> reqs)"

definition no_bound :: "BatchRequest list \<Rightarrow> Range option \<Rightarrow> BatchRequest list" where
  "no_bound reqs r = reqs"

definition example_fields :: Fields where
  "example_fields = \<lparr>block = Some [(''size'', Some True)], transaction = None, log = None\<rparr>"

definition example_processor :: EvmBatchProcessor where
  "example_processor =
     snd (addTransaction
            \<lparr>opt_to = None, opt_from = None, opt_sighash = Some (Str ''0xA9059CBB''),
             opt_tx_range = None\<rparr>
       (snd (addLog \<lparr>opt_address = Some (Arr [''0xAbC'']), opt_filter = None,
                    opt_log_range = None\<rparr>
          (snd (setFields example_fields new_processor)))))"

subsection \<open>Field masks\<close>

text \<open>A mask asks for a field when it maps the field to \<open>true\<close>.\<close>

definition enabled :: "Selector option \<Rightarrow> string \<Rightarrow> bool" where
  "enabled m k = (case m of None \<Rightarrow> False | Some sel \<Rightarrow> map_of sel k = Some (Some True))"

text \<open>
  What the JSON body of a query carries for a field of a mask: \<open>JSON.stringify\<close> leaves out
  a property whose value is \<open>undefined\<close>, so such a property and an absent one are the same.
\<close>

definition on_wire :: "Selector option \<Rightarrow> string \<Rightarrow> bool option" where
  "on_wire m k =
     (case m of
        None \<Rightarrow> None
      | Some sel \<Rightarrow> (case map_of sel k of Some (Some b) \<Rightarrow> Some b | _ \<Rightarrow> None))"

definition masks_on_wire ::
  "FieldSelection \<Rightarrow>
   (string \<Rightarrow> bool option) \<times> (string \<Rightarrow> bool option) \<times> (string \<Rightarrow> bool option)" where
  "masks_on_wire fs = (on_wire (fs_block fs), on_wire (fs_transaction fs), on_wire (fs_log fs))"

text \<open>The selector's output read as its input, to apply the selector twice.\<close>

definition asFields :: "FieldSelection \<Rightarrow> Fields" where
  "asFields fs = \<lparr>block = fs_block fs, transaction = fs_transaction fs, log = fs_log fs\<rparr>"

text \<open>A table of defaults in which every listed field is \<open>true\<close>.\<close>

definition only_true :: "Selector \<Rightarrow> bool" where
  "only_true d = list_all (\<lambda>(k, v). v = Some True) d"

definition all_true :: "DefaultFields \<Rightarrow> bool" where
  "all_true D =
     (only_true (default_block D) \<and> only_true (default_transaction D) \<and>
      only_true (default_log D))"

text \<open>
  A selection that sets no default field to \<open>false\<close>, the fields in \<open>forced\<close> apart (for those
  the user's choice is overridden or dropped anyway).
\<close>

definition disables_no_default :: "string list \<Rightarrow> Selector \<Rightarrow> Selector option \<Rightarrow> bool" where
  "disables_no_default forced d sel =
     (case sel of
        None \<Rightarrow> True
      | Some s \<Rightarrow>
          list_all (\<lambda>(k, v). v = Some False \<longrightarrow> k \<in> set forced \<or> map_of d k = None) s)"

definition keeps_defaults :: "DefaultFields \<Rightarrow> Fields option \<Rightarrow> bool" where
  "keeps_defaults D f =
     (disables_no_default [''hash'', ''number''] (default_block D) (Option.bind f block) \<and>
      disables_no_default [''index''] (default_transaction D) (Option.bind f transaction) \<and>
      disables_no_default [''index'', ''transactionIndex'', ''transaction''] (default_log D)
        (Option.bind f log))"

definition disable_timestamp :: Fields where
  "disable_timestamp =
     \<lparr>block = Some [(''timestamp'', Some False)], transaction = None, log = None\<rparr>"

definition enable_size :: Fields where
  "enable_size =
     \<lparr>block = Some [(''size'', Some True), (''hash'', Some False)], transaction = None,
      log = Some [(''transaction'', Some True)]\<rparr>"

subsection \<open>Archives\<close>

text \<open>
  The reply to a query carries only blocks whose number is the query's \<open>fromBlock\<close> and
  which have no property named \<open>height\<close>; for the single-height query of
  \<open>fetchBlockHeader\<close> that number is the height asked for.
\<close>

definition header_reply_at_height :: "http \<Rightarrow> gw_BatchRequest \<Rightarrow> bool" where
  "header_reply_at_height post q =
     (case post q of
        Inl e \<Rightarrow> True
      | Inr res \<Rightarrow>
          list_all (list_all (\<lambda>b. number (gw_block b) = fromBlock q \<and>
                                  ''height'' \<notin> set (map fst (block_props (gw_block b)))))
            (data res))"

definition example_externals :: externals where
  "example_externals =
     \<lparr>js_BigInt = (\<lambda>w. None), js_Number = (\<lambda>w. None), formatId = (\<lambda>h hsh i. hsh),
      blockItemOrder = (\<lambda>a b. 0)\<rparr>"

definition example_request :: BatchRequest where
  "example_request =
     \<lparr>brange = \<lparr>range_from = 40, range_to = Some 50\<rparr>, request = empty_request\<rparr>"

text \<open>
  An archive with no data for the blocks 40 to 50 (\<open>nextBlock\<close> 51, height 100), which
  answers the single-height query at 50 with one block, numbered \<open>n\<close>.
\<close>

definition silent_archive :: "int \<Rightarrow> http" where
  "silent_archive n q =
     (if fromBlock q = 50 \<and> toBlock q = Some 50
      then Inr \<lparr>data = [[\<lparr>gw_block = \<lparr>number = n, hash = ''0xabc'', block_props = []\<rparr>,
                         gw_block_transactions = [], gw_block_logs = []\<rparr>]],
               nextBlock = 51, archiveHeight = 100\<rparr>
      else Inr \<lparr>data = [], nextBlock = 51, archiveHeight = 100\<rparr>)"

text \<open>
  The same archive, which answers the single-height query at 50 with the block numbered
  50, carrying a property \<open>height\<close> of value 7.
\<close>

definition overwriting_archive :: http where
  "overwriting_archive q =
     (if fromBlock q = 50 \<and> toBlock q = Some 50
      then Inr \<lparr>data = [[\<lparr>gw_block = \<lparr>number = 50, hash = ''0xabc'',
                                      block_props = [(''height'', JNumber 7)]\<rparr>,
                         gw_block_transactions = [], gw_block_logs = []\<rparr>]],
               nextBlock = 51, archiveHeight = 100\<rparr>
      else Inr \<lparr>data = [], nextBlock = 51, archiveHeight = 100\<rparr>)"

subsection \<open>Change logs\<close>

text \<open>The rows of one block for a list of records, indexed from \<open>i\<close> on.\<close>

fun change_rows :: "int \<Rightarrow> nat \<Rightarrow> ChangeRecord list \<Rightarrow> ChangeRow list" where
  "change_rows h i [] = []"
| "change_rows h i (c # cs) =
     \<lparr>block_height = h, index = i, change = c\<rparr> # change_rows h (Suc i) cs"

text \<open>
  The record that the spec asks of \<open>trackUpsert\<close> for one entity: an update with the
  pre-image when the id is in the table, an insert when it is not.
\<close>

definition upsert_record :: "database \<Rightarrow> string \<Rightarrow> Entity \<Rightarrow> ChangeRecord" where
  "upsert_record db t e =
     (case tables db t (entity_id e) of
        Some r \<Rightarrow> UpdateRecord t (entity_id e) (row_fields (columns db t) r)
      | None \<Rightarrow> InsertRecord t (entity_id e))"

definition is_insert_or_update :: "ChangeRecord \<Rightarrow> bool" where
  "is_insert_or_update c =
     (case c of InsertRecord t i \<Rightarrow> True | UpdateRecord t i f \<Rightarrow> True | DeleteRecord t i f \<Rightarrow> False)"

definition example_db :: database where
  "example_db =
     \<lparr>columns = (\<lambda>t. if t = ''item'' then [''name''] else []),
      tables = (\<lambda>t. if t = ''item''
                     then [''1'' \<mapsto> [''name'' \<mapsto> JString ''a'']]
                     else Map.empty),
      status_schema = ''squid'',
      hot_change_log = [],
      hot_block = [7]\<rparr>"

definition example_entities :: "Entity list" where
  "example_entities =
     [\<lparr>entity_id = ''1'', entity_props = [(''name'', JString ''b'')]\<rparr>,
      \<lparr>entity_id = ''2'', entity_props = [(''name'', JString ''c'')]\<rparr>]"

section \<open>Properties of the processor's configuration\<close>

text \<open>
  C10. Once \<open>run\<close> has been invoked, every configuration method, and \<open>run\<close> itself,
  throws the settings error and leaves the processor (request list, block range, fields,
  data source, port, running flag) exactly as it was.
\<close>

theorem configuration_frozen_after_run:
  "let p' = snd (run p);
       e = Some (Error ''Settings modifications are not allowed after start of processing'')
   in running p' \<and>
      setFields f p' = (e, p') \<and>
      addLog lo p' = (e, p') \<and>
      addTransaction tx p' = (e, p') \<and>
      includeAllBlocks_range r p' = (e, p') \<and>
      setBlockRange r' p' = (e, p') \<and>
      setDataSource s p' = (e, p') \<and>
      setPrometheusPort prt p' = (e, p') \<and>
      run p' = (e, p')"
  by (simp add: Let_def run_def assertNotRunning_def setFields_def addLog_def
      addTransaction_def includeAllBlocks_range_def setBlockRange_def setDataSource_def
      setPrometheusPort_def)

subsection \<open>Lowercasing of request lists\<close>

lemma lower_char_not_upper: "\<not> is_upper (lower_char c)"
  by (auto simp: is_upper_def lower_char_def Let_def)

lemma toLowerCase_no_upper: "c \<in> set (toLowerCase s) \<Longrightarrow> \<not> is_upper c"
  by (auto simp: toLowerCase_def lower_char_not_upper)

lemma toRequestList_supplied: "listed (toRequestList v) = map toLowerCase (supplied v)"
  by (auto simp: listed_def toRequestList_def supplied_def Let_def
      split: option.splits str_or_list.splits)

lemma lower_sighash: "toLowerCase ''0xA9059CBB'' = ''0xa9059cbb''"
  by code_simp

lemma lower_address: "toLowerCase ''0xAbC'' = ''0xabc''"
  by code_simp

lemma lower_topic: "toLowerCase ''0xDDF252AD'' \<noteq> ''0xDDF252AD''"
  by code_simp

text \<open>
  C5, as stated, fails for topics: \<open>addLog\<close> stores the topic filter as the user gave it.
  A filter with an upper-case topic is stored unchanged, and it is not its own lowercase.
\<close>

theorem addLog_keeps_topic_case:
  "snd (addLog \<lparr>opt_address = None, opt_filter = Some [[''0xDDF252AD'']], opt_log_range = None\<rparr>
          new_processor) =
     new_processor
       \<lparr>requests :=
          [\<lparr>brange = \<lparr>range_from = 0, range_to = None\<rparr>,
            request = empty_request
              \<lparr>logs := Some [\<lparr>address = None, topics_filter = Some [[''0xDDF252AD'']]\<rparr>]\<rparr>\<rparr>]\<rparr> \<and>
   toLowerCase ''0xDDF252AD'' \<noteq> ''0xDDF252AD''"
  by (simp add: addLog_def assertNotRunning_def new_processor_def add_def toRequestList_def
      lower_topic)

text \<open>
  C5, amended. For every \<open>addLog\<close> and \<open>addTransaction\<close> call on a processor that is not
  running, the call appends one request, and in it the addresses of the log criterion
  and the \<open>from\<close>, \<open>to\<close> and \<open>sighash\<close> lists of the transaction criterion are the
  strings the user supplied, each lowercased, in order (an empty list is stored as
  absent). A lowercased string has no letter \<open>A\<close> to \<open>Z\<close>.
\<close>

theorem addLog_addTransaction_lowercase:
  assumes "\<not> running p"
  shows "(\<exists>r l. requests (snd (addLog lo p)) = requests p @ [r] \<and>
            logs (request r) = Some [l] \<and>
            listed (address l) = map toLowerCase (supplied (opt_address lo))) \<and>
         (\<exists>r t. requests (snd (addTransaction tx p)) = requests p @ [r] \<and>
            transactions (request r) = Some [t] \<and>
            listed (tx_from t) = map toLowerCase (supplied (opt_from tx)) \<and>
            listed (tx_to t) = map toLowerCase (supplied (opt_to tx)) \<and>
            listed (sighash t) = map toLowerCase (supplied (opt_sighash tx))) \<and>
         (\<forall>s. \<forall>c \<in> set (toLowerCase s). \<not> is_upper c)"
  using assms
  by (simp add: addLog_def addTransaction_def assertNotRunning_def add_def empty_request_def
      toRequestList_supplied toLowerCase_no_upper)

theorem addLog_addTransaction_lowercase_witness:
  "\<not> running new_processor \<and>
   (\<exists>r t. requests (snd (addTransaction
                \<lparr>opt_to = None, opt_from = None, opt_sighash = Some (Str ''0xA9059CBB''),
                 opt_tx_range = None\<rparr> new_processor)) = requests new_processor @ [r] \<and>
           transactions (request r) = Some [t] \<and>
           listed (sighash t) = [''0xa9059cbb''])"
proof -
  have n: "\<not> running new_processor" by (simp add: new_processor_def)
  have l: "map toLowerCase (supplied (Some (Str ''0xA9059CBB''))) = [''0xa9059cbb'']"
    by (simp add: supplied_def lower_sighash)
  from addLog_addTransaction_lowercase[OF n, where
      lo = "\<lparr>opt_address = None, opt_filter = None, opt_log_range = None\<rparr>" and
      tx = "\<lparr>opt_to = None, opt_from = None, opt_sighash = Some (Str ''0xA9059CBB''),
             opt_tx_range = None\<rparr>"]
  obtain r t where
    "requests (snd (addTransaction
        \<lparr>opt_to = None, opt_from = None, opt_sighash = Some (Str ''0xA9059CBB''),
         opt_tx_range = None\<rparr> new_processor)) = requests new_processor @ [r]"
    "transactions (request r) = Some [t]"
    "listed (sighash t) = map toLowerCase (supplied (Some (Str ''0xA9059CBB'')))"
    by auto
  with n l show ?thesis by auto
qed

subsection \<open>Merging requests\<close>

lemma concatRequestLists_listed:
  "concatRequestLists a b =
     (if listed a @ listed b = [] then None else Some (listed a @ listed b))"
  by (simp add: concatRequestLists_def listed_def Let_def split: option.splits)

text \<open>
  C7. \<open>merge\<close> concatenates the \<open>logs\<close> lists and the \<open>transactions\<close> lists of its two
  arguments, an empty concatenation giving an absent list; its \<open>includeAllBlocks\<close> is
  \<open>true\<close> when it is truthy in one argument and absent otherwise, so it is truthy exactly
  when one of the two is; it sets no \<open>fields\<close>. \<open>getBatchRequests\<close> writes the processor's
  \<open>fields\<close>, when set, into every request that \<open>mergeBatchRequests\<close> returned, before the
  range bound is applied.
\<close>

theorem merge_concatenates_and_fields_follow:
  "logs (merge a b) =
     (if listed (logs a) @ listed (logs b) = [] then None
      else Some (listed (logs a) @ listed (logs b))) \<and>
   transactions (merge a b) =
     (if listed (transactions a) @ listed (transactions b) = [] then None
      else Some (listed (transactions a) @ listed (transactions b))) \<and>
   includeAllBlocks (merge a b) =
     (if truthy (includeAllBlocks a) \<or> truthy (includeAllBlocks b) then Some True else None) \<and>
   truthy (includeAllBlocks (merge a b)) =
     (truthy (includeAllBlocks a) \<or> truthy (includeAllBlocks b)) \<and>
   req_fields (merge a b) = None \<and>
   getBatchRequests mergeBatchRequests applyRangeBound p =
     applyRangeBound (applyFields (proc_fields p) (mergeBatchRequests (requests p) merge))
       (blockRange p) \<and>
   length (applyFields (Some f) reqs) = length reqs \<and>
   (\<forall>r \<in> set (applyFields (Some f) reqs). req_fields (request r) = Some f)"
  by (auto simp: merge_def Let_def concatRequestLists_listed empty_request_def truthy_def
      getBatchRequests_def applyFields_def)

theorem merge_concatenates_and_fields_follow_witness:
  "getBatchRequests merge_pair no_bound example_processor =
     [\<lparr>brange = \<lparr>range_from = 0, range_to = None\<rparr>,
       request =
         \<lparr>includeAllBlocks = None,
          logs = Some [\<lparr>address = Some [''0xabc''], topics_filter = None\<rparr>],
          transactions = Some [\<lparr>tx_from = None, tx_to = None, sighash = Some [''0xa9059cbb'']\<rparr>],
          req_fields = Some example_fields\<rparr>\<rparr>] \<and>
   map (\<lambda>r. req_fields (request r))
     (getBatchRequests merge_pair no_bound example_processor) = [Some example_fields]"
proof -
  have p: "proc_fields example_processor = Some example_fields"
    by (simp add: example_processor_def addTransaction_def addLog_def setFields_def
        assertNotRunning_def new_processor_def add_def)
  have rs: "requests example_processor =
      [\<lparr>brange = \<lparr>range_from = 0, range_to = None\<rparr>,
        request = empty_request\<lparr>logs := Some [\<lparr>address = Some [''0xabc''], topics_filter = None\<rparr>]\<rparr>\<rparr>,
       \<lparr>brange = \<lparr>range_from = 0, range_to = None\<rparr>,
        request = empty_request\<lparr>transactions :=
          Some [\<lparr>tx_from = None, tx_to = None, sighash = Some [''0xa9059cbb'']\<rparr>]\<rparr>\<rparr>]"
    by (simp add: example_processor_def addTransaction_def addLog_def setFields_def
        assertNotRunning_def new_processor_def add_def toRequestList_def lower_sighash
        lower_address)
  note m = merge_concatenates_and_fields_follow[where p = example_processor
      and mergeBatchRequests = merge_pair and applyRangeBound = no_bound
      and f = example_fields and reqs = "merge_pair (requests example_processor) merge"]
  from m have g: "getBatchRequests merge_pair no_bound example_processor =
      applyFields (Some example_fields) (merge_pair (requests example_processor) merge)"
    by (simp add: p no_bound_def)
  from m have a: "\<forall>r \<in> set (applyFields (Some example_fields)
        (merge_pair (requests example_processor) merge)). req_fields (request r) = Some example_fields"
    by blast
  have v: "applyFields (Some example_fields) (merge_pair (requests example_processor) merge) =
     [\<lparr>brange = \<lparr>range_from = 0, range_to = None\<rparr>,
       request =
         \<lparr>includeAllBlocks = None,
          logs = Some [\<lparr>address = Some [''0xabc''], topics_filter = None\<rparr>],
          transactions = Some [\<lparr>tx_from = None, tx_to = None, sighash = Some [''0xa9059cbb'']\<rparr>],
          req_fields = Some example_fields\<rparr>\<rparr>]"
    by (simp add: rs merge_pair_def merge_def applyFields_def concatRequestLists_def
        empty_request_def truthy_def Let_def)
  from g a v show ?thesis by simp
qed

section \<open>Properties of the field selector\<close>

lemma mergeDefaultFields_step_lookup:
  "map_of (mergeDefaultFields_step sel key result) k =
     (if k = key then
        (case map_of sel key of
           Some (Some True) \<Rightarrow> Some (Some True)
         | Some (Some False) \<Rightarrow> Some None
         | _ \<Rightarrow> map_of result k)
      else map_of result k)"
  by (auto simp: mergeDefaultFields_step_def update_conv' split: option.splits bool.splits)

lemma fold_step_lookup:
  "map_of (fold (mergeDefaultFields_step sel) ks d) k =
     (if k \<in> set ks then
        (case map_of sel k of
           Some (Some True) \<Rightarrow> Some (Some True)
         | Some (Some False) \<Rightarrow> Some None
         | _ \<Rightarrow> map_of d k)
      else map_of d k)"
proof (induction ks arbitrary: d)
  case Nil
  then show ?case by simp
next
  case (Cons key ks)
  show ?case
    by (simp add: Cons.IH mergeDefaultFields_step_lookup split: option.splits bool.splits)
qed

text \<open>What \<open>mergeDefaultFields\<close> leaves under each key.\<close>

lemma mergeDefaultFields_lookup:
  "map_of (mergeDefaultFields d sel) k =
     (case sel of
        None \<Rightarrow> map_of d k
      | Some s \<Rightarrow>
          (case map_of s k of
             Some (Some True) \<Rightarrow> Some (Some True)
           | Some (Some False) \<Rightarrow> Some None
           | _ \<Rightarrow> map_of d k))"
proof (cases sel)
  case None
  then show ?thesis by (simp add: mergeDefaultFields_def)
next
  case (Some s)
  show ?thesis
  proof (cases "k \<in> set (map fst s)")
    case True
    then show ?thesis by (simp add: Some mergeDefaultFields_def fold_step_lookup)
  next
    case False
    then have "map_of s k = None" by (simp add: map_of_eq_None_iff)
    with False show ?thesis by (simp add: Some mergeDefaultFields_def fold_step_lookup)
  qed
qed

text \<open>
  C3. Whatever the defaults and whatever the user selects (also a selection that sets
  them to \<open>false\<close>), the masks that \<open>toFieldSelection\<close> returns have \<open>block.hash\<close>,
  \<open>block.number\<close>, \<open>transaction.index\<close>, \<open>log.index\<close> and \<open>log.transactionIndex\<close> set to
  \<open>true\<close>.
\<close>

theorem always_on_fields:
  "enabled (fs_block (toFieldSelection D f)) ''hash'' \<and>
   enabled (fs_block (toFieldSelection D f)) ''number'' \<and>
   enabled (fs_transaction (toFieldSelection D f)) ''index'' \<and>
   enabled (fs_log (toFieldSelection D f)) ''index'' \<and>
   enabled (fs_log (toFieldSelection D f)) ''transactionIndex''"
  by (simp add: enabled_def toFieldSelection_def Let_def update_conv')

subsection \<open>Applying the selector twice\<close>

text \<open>
  C4, as stated, fails: with the default projection of the Glossary, a selection that
  disables \<open>block.timestamp\<close> gives a mask without \<open>timestamp\<close>; the selector applied to
  that mask finds no \<open>false\<close> there and puts the default back.
\<close>

theorem selector_not_idempotent:
  "on_wire (fs_block (toFieldSelection DEFAULT_FIELDS (Some disable_timestamp)))
     ''timestamp'' = None \<and>
   on_wire (fs_block (toFieldSelection DEFAULT_FIELDS
       (Some (asFields (toFieldSelection DEFAULT_FIELDS (Some disable_timestamp))))))
     ''timestamp'' = Some True \<and>
   toFieldSelection DEFAULT_FIELDS
       (Some (asFields (toFieldSelection DEFAULT_FIELDS (Some disable_timestamp))))
     \<noteq> toFieldSelection DEFAULT_FIELDS (Some disable_timestamp)"
  by (simp add: on_wire_def toFieldSelection_def DEFAULT_FIELDS_def disable_timestamp_def
      asFields_def mergeDefaultFields_def mergeDefaultFields_step_def Let_def)

text \<open>
  The same happens for any table of defaults: a default block field that is not always
  on and is disabled by the user is absent after one pass and back after two.
\<close>

lemma disabled_default_returns:
  assumes "map_of (default_block D) k = Some (Some True)" and "k \<noteq> ''hash''"
    and "k \<noteq> ''number''"
  shows "on_wire (fs_block (toFieldSelection D
           (Some \<lparr>block = Some [(k, Some False)], transaction = None, log = None\<rparr>))) k = None \<and>
         on_wire (fs_block (toFieldSelection D (Some (asFields (toFieldSelection D
           (Some \<lparr>block = Some [(k, Some False)], transaction = None, log = None\<rparr>)))))) k
           = Some True"
  using assms
  by (simp add: on_wire_def toFieldSelection_def asFields_def Let_def update_conv'
      mergeDefaultFields_lookup)

lemma only_true_lookup:
  "only_true d \<Longrightarrow> map_of d k = None \<or> map_of d k = Some (Some True)"
  by (cases "map_of d k") (auto simp: only_true_def list_all_iff dest!: map_of_SomeD)

lemma disables_no_default_lookup:
  assumes "disables_no_default forced d (Some s)" and "map_of s k = Some (Some False)"
  shows "k \<in> set forced \<or> map_of d k = None"
proof -
  from assms(2) have "(k, Some False) \<in> set s" by (rule map_of_SomeD)
  with assms(1)
  have "case (k, Some False) of
          (k, v) \<Rightarrow> v = Some False \<longrightarrow> k \<in> set forced \<or> map_of d k = None"
    unfolding disables_no_default_def list_all_iff by (simp only: option.case)
  then show ?thesis by simp
qed

lemma block_mask_twice:
  assumes "only_true (default_block D)"
    and "disables_no_default [''hash'', ''number''] (default_block D) (Option.bind f block)"
  shows "on_wire (fs_block (toFieldSelection D (Some (asFields (toFieldSelection D f))))) k
       = on_wire (fs_block (toFieldSelection D f)) k"
proof -
  note d = only_true_lookup[OF assms(1), of k]
  show ?thesis
  proof (cases "Option.bind f block")
    case None
    with d show ?thesis
      by (auto simp: on_wire_def toFieldSelection_def asFields_def Let_def update_conv'
          mergeDefaultFields_lookup split: option.splits bool.splits)
  next
    case (Some s)
    note dis = disables_no_default_lookup[OF assms(2)[unfolded Some], of k]
    from d dis Some show ?thesis
      by (auto simp: on_wire_def toFieldSelection_def asFields_def Let_def update_conv'
          mergeDefaultFields_lookup split: option.splits bool.splits)
  qed
qed

lemma transaction_mask_twice:
  assumes "only_true (default_transaction D)"
    and "disables_no_default [''index''] (default_transaction D) (Option.bind f transaction)"
  shows "on_wire (fs_transaction (toFieldSelection D (Some (asFields (toFieldSelection D f))))) k
       = on_wire (fs_transaction (toFieldSelection D f)) k"
proof -
  note d = only_true_lookup[OF assms(1), of k]
  show ?thesis
  proof (cases "Option.bind f transaction")
    case None
    with d show ?thesis
      by (auto simp: on_wire_def toFieldSelection_def asFields_def Let_def update_conv'
          mergeDefaultFields_lookup split: option.splits bool.splits)
  next
    case (Some s)
    note dis = disables_no_default_lookup[OF assms(2)[unfolded Some], of k]
    from d dis Some show ?thesis
      by (auto simp: on_wire_def toFieldSelection_def asFields_def Let_def update_conv'
          mergeDefaultFields_lookup split: option.splits bool.splits)
  qed
qed

lemma log_mask_twice:
  assumes "only_true (default_log D)"
    and "disables_no_default [''index'', ''transactionIndex'', ''transaction''] (default_log D)
           (Option.bind f log)"
  shows "on_wire (fs_log (toFieldSelection D (Some (asFields (toFieldSelection D f))))) k
       = on_wire (fs_log (toFieldSelection D f)) k"
proof -
  note d = only_true_lookup[OF assms(1), of k]
  show ?thesis
  proof (cases "Option.bind f log")
    case None
    with d show ?thesis
      by (auto simp: on_wire_def toFieldSelection_def asFields_def Let_def update_conv'
          delete_conv' mergeDefaultFields_lookup split: option.splits bool.splits)
  next
    case (Some s)
    note dis = disables_no_default_lookup[OF assms(2)[unfolded Some], of k]
    from d dis Some show ?thesis
      by (auto simp: on_wire_def toFieldSelection_def asFields_def Let_def update_conv'
          delete_conv' mergeDefaultFields_lookup split: option.splits bool.splits)
  qed
qed

text \<open>
  C4, amended. When every default is \<open>true\<close> and the selection sets no default field
  to \<open>false\<close> (the always-on fields and \<open>log.transaction\<close> apart), applying the selector
  to its own output gives the same masks on the wire as applying it once.
\<close>

theorem selector_idempotent_keeping_defaults:
  assumes "all_true D" and "keeps_defaults D f"
  shows "masks_on_wire (toFieldSelection D (Some (asFields (toFieldSelection D f))))
       = masks_on_wire (toFieldSelection D f)"
  using assms
  by (auto simp: masks_on_wire_def all_true_def keeps_defaults_def fun_eq_iff
      block_mask_twice transaction_mask_twice log_mask_twice)

theorem selector_idempotent_keeping_defaults_witness:
  "all_true DEFAULT_FIELDS \<and> keeps_defaults DEFAULT_FIELDS (Some enable_size) \<and>
   masks_on_wire (toFieldSelection DEFAULT_FIELDS
       (Some (asFields (toFieldSelection DEFAULT_FIELDS (Some enable_size)))))
     = masks_on_wire (toFieldSelection DEFAULT_FIELDS (Some enable_size))"
proof -
  have a: "all_true DEFAULT_FIELDS"
    by (simp add: all_true_def only_true_def DEFAULT_FIELDS_def)
  have k: "keeps_defaults DEFAULT_FIELDS (Some enable_size)"
    by (simp add: keeps_defaults_def disables_no_default_def DEFAULT_FIELDS_def enable_size_def)
  from selector_idempotent_keeping_defaults[OF a k] a k show ?thesis by simp
qed

section \<open>Properties of the finalized batch\<close>

lemma map_props_keys:
  "map_props conv kvs = Inr ps \<Longrightarrow> set (map fst ps) \<subseteq> set (map fst kvs)"
proof (induction kvs arbitrary: ps)
  case Nil
  then show ?case by simp
next
  case (Cons kv kvs)
  obtain k v where kv: "kv = (k, v)" by (cases kv)
  from Cons.prems kv obtain r rest where r: "conv k v = Inr r"
    and rest: "map_props conv kvs = Inr rest"
    and ps: "ps = (case r of None \<Rightarrow> rest | Some m \<Rightarrow> (k, m) # rest)"
    by (auto split: sum.splits)
  from Cons.IH[OF rest] ps kv show ?case by (auto split: option.splits)
qed

text \<open>
  The height of a mapped header is the number of the block that the archive sent,
  unless the block has a property named \<open>height\<close>.
\<close>

lemma mapGatewayBlockHeader_height:
  assumes "mapGatewayBlockHeader ext blk = Inr h"
    and "''height'' \<notin> set (map fst (block_props blk))"
  shows "height h = JNumber (number blk)"
proof -
  from assms(1) obtain ps where ps: "map_props (header_key ext) (block_props blk) = Inr ps"
    and h: "height h =
      (case map_of (rev ps) ''height'' of Some (Copied v) \<Rightarrow> v | _ \<Rightarrow> JNumber (number blk))"
    by (auto simp: mapGatewayBlockHeader_def split: sum.splits)
  from map_props_keys[OF ps] assms(2) have "''height'' \<notin> set (map fst (rev ps))" by auto
  then have "map_of (rev ps) ''height'' = None" by (simp add: map_of_eq_None_iff)
  with h show ?thesis by simp
qed

text \<open>
  The header that \<open>fetchBlockHeader\<close> returns has the height of the block that the
  archive sent, which is the height asked for only if the archive sent that block.
\<close>

lemma fetchBlockHeader_height:
  assumes "fetchBlockHeader ext post h fs = Inr hdr"
    and "header_reply_at_height post (fetchBlockHeader_query h fs)"
  shows "height hdr = JNumber h"
proof -
  from assms(1) obtain res where res: "post (fetchBlockHeader_query h fs) = Inr res"
    and l1: "length (data res) = 1" and l2: "length (data res ! 0) = 1"
    and m: "mapGatewayBlockHeader ext (gw_block (data res ! 0 ! 0)) = Inr hdr"
    by (auto simp: fetchBlockHeader_def query_def split: sum.splits if_splits)
  from l1 obtain bs where d: "data res = [bs]" by (cases "data res") auto
  with l2 obtain b where bs: "bs = [b]" by (cases bs) auto
  from assms(2) res d bs have n: "number (gw_block b) = h"
    and k: "''height'' \<notin> set (map fst (block_props (gw_block b)))"
    by (simp_all add: header_reply_at_height_def fetchBlockHeader_query_def)
  from m d bs have "mapGatewayBlockHeader ext (gw_block b) = Inr hdr" by simp
  from mapGatewayBlockHeader_height[OF this k] n show ?thesis by simp
qed

lemma set_insert_by [simp]: "set (insert_by cmp x xs) = insert x (set xs)"
  by (induction xs) auto

lemma set_sort_by [simp]: "set (sort_by cmp xs) = set xs"
  by (induction xs) (simp_all add: sort_by_def)

lemma sort_by_Nil_iff [simp]: "sort_by cmp xs = [] \<longleftrightarrow> xs = []"
  using set_sort_by[of cmp xs] by (metis set_empty)


text \<open>
  The same happens when the archive sends the block asked for with a property named
  \<open>height\<close>: the default branch of the loop in \<open>mapGatewayBlockHeader\<close> stores it over the
  height taken from \<open>number\<close>.
\<close>

lemma reply_height_overwrites_header:
  "snd (getFinalizedBatch example_externals DEFAULT_FIELDS overwriting_archive example_request) =
     Inr \<lparr>resp_range = \<lparr>closed_from = 40, closed_to = 50\<rparr>,
          blocks = [\<lparr>header = \<lparr>block_id = JString ''0xabc'', height = JNumber 7,
                               block_hash = ''0xabc'', header_props = []\<rparr>,
                     items = []\<rparr>],
          chainHeight = 100\<rparr>"
  by (simp add: getFinalizedBatch_def Let_def query_def overwriting_archive_def
      example_request_def batch_query_def empty_request_def fetchBlockHeader_def
      fetchBlockHeader_query_def maybeLast_def mapGatewayBlockHeader_def example_externals_def
      truthy_def sort_by_def header_key_def)

text \<open>
  What holds of every batch that \<open>getFinalizedBatch\<close> returns: \<open>range.to\<close> is the \<open>nextBlock\<close>
  of the archive's reply minus 1 and the list of blocks is not empty; either the last
  of the sorted blocks of the reply has the height \<open>range.to\<close> and the batch holds these
  blocks, or the batch holds them followed by the stub \<open>{header, items: []}\<close> whose header
  is the one that \<open>fetchBlockHeader\<close> returned for \<open>range.to\<close>; and the last block has
  \<open>header.height = range.to\<close> when the reply to the header query carries only the block
  asked for, without a property named \<open>height\<close>.
\<close>

lemma finalized_batch_range:
  assumes run: "getFinalizedBatch ext D post req = (qs, Inr batch)"
  shows "\<exists>res bs. post (batch_query D req) = Inr res \<and>
           map_throwing (tryMapGatewayBlock ext) (concat (data res)) = Inr bs \<and>
           closed_to (resp_range batch) = nextBlock res - 1 \<and>
           closed_from (resp_range batch) = range_from (brange req) \<and>
           chainHeight batch = archiveHeight res \<and>
           blocks batch \<noteq> [] \<and>
           (if map_option (\<lambda>b. height (header b)) (maybeLast (sort_by (by_height ext) bs))
                 = Some (JNumber (nextBlock res - 1))
            then blocks batch = sort_by (by_height ext) bs
            else \<exists>hdr. fetchBlockHeader ext post (nextBlock res - 1)
                           (toFieldSelection D (req_fields (request req))) = Inr hdr \<and>
                        blocks batch =
                          sort_by (by_height ext) bs @ [\<lparr>header = hdr, items = []\<rparr>]) \<and>
           (header_reply_at_height post
               (fetchBlockHeader_query (nextBlock res - 1)
                  (toFieldSelection D (req_fields (request req)))) \<longrightarrow>
              height (header (last (blocks batch))) = JNumber (closed_to (resp_range batch)))"
proof -
  let ?fs = "toFieldSelection D (req_fields (request req))"
  from run obtain res where res: "post (batch_query D req) = Inr res"
    by (auto simp: getFinalizedBatch_def Let_def query_def split: sum.splits)
  from run res obtain bs where
    bs: "map_throwing (tryMapGatewayBlock ext) (concat (data res)) = Inr bs"
    by (auto simp: getFinalizedBatch_def Let_def query_def split: sum.splits)
  let ?to = "nextBlock res - 1"
  let ?sorted = "sort_by (by_height ext) bs"
  show ?thesis
  proof (cases "map_option (\<lambda>b. height (header b)) (maybeLast ?sorted) \<noteq> Some (JNumber ?to)")
    case True
    with run res bs obtain hdr where f: "fetchBlockHeader ext post ?to ?fs = Inr hdr"
      and b: "batch =
        \<lparr>resp_range = \<lparr>closed_from = range_from (brange req), closed_to = ?to\<rparr>,
         blocks = ?sorted @ [\<lparr>header = hdr, items = []\<rparr>],
         chainHeight = archiveHeight res\<rparr>"
      by (auto simp: getFinalizedBatch_def Let_def query_def split: sum.splits)
    show ?thesis
      using res bs True f fetchBlockHeader_height[OF f]
      by (intro exI[of _ res] exI[of _ bs]) (simp add: b)
  next
    case False
    with run res bs have b: "batch =
        \<lparr>resp_range = \<lparr>closed_from = range_from (brange req), closed_to = ?to\<rparr>,
         blocks = ?sorted, chainHeight = archiveHeight res\<rparr>"
      by (auto simp: getFinalizedBatch_def Let_def query_def split: sum.splits)
    from False have ne: "?sorted \<noteq> []" and la: "height (header (last ?sorted)) = JNumber ?to"
      by (auto simp: maybeLast_def split: if_splits)
    with res bs False show ?thesis
      by (intro exI[of _ res] exI[of _ bs]) (simp add: b)
  qed
qed

lemma silent_archive_batch:
  "getFinalizedBatch example_externals DEFAULT_FIELDS (silent_archive 50) example_request =
     ([batch_query DEFAULT_FIELDS example_request,
       fetchBlockHeader_query 50 (toFieldSelection DEFAULT_FIELDS None)],
      Inr \<lparr>resp_range = \<lparr>closed_from = 40, closed_to = 50\<rparr>,
           blocks = [\<lparr>header = \<lparr>block_id = JString ''0xabc'', height = JNumber 50,
                                block_hash = ''0xabc'', header_props = []\<rparr>,
                      items = []\<rparr>],
           chainHeight = 100\<rparr>)"
  by (simp add: getFinalizedBatch_def Let_def query_def silent_archive_def example_request_def
      batch_query_def empty_request_def fetchBlockHeader_def fetchBlockHeader_query_def
      maybeLast_def mapGatewayBlockHeader_def example_externals_def truthy_def sort_by_def)

text \<open>
  Against the archive that answers the header query at 50 with block 50, the stub has
  the height of \<open>range.to\<close>.
\<close>

lemma silent_archive_reply:
  "header_reply_at_height (silent_archive 50)
     (fetchBlockHeader_query 50 (toFieldSelection DEFAULT_FIELDS None)) \<and>
   map (\<lambda>b. height (header b))
     (blocks \<lparr>resp_range = \<lparr>closed_from = 40, closed_to = 50\<rparr>,
          blocks = [\<lparr>header = \<lparr>block_id = JString ''0xabc'', height = JNumber 50,
                               block_hash = ''0xabc'', header_props = []\<rparr>,
                     items = []\<rparr>],
          chainHeight = 100\<rparr>) = [JNumber 50]"
  by (simp add: header_reply_at_height_def silent_archive_def fetchBlockHeader_query_def)

text \<open>
  The first query carries the criteria of the request as they are stored: no string is
  changed between the stored request and the body posted.
\<close>

lemma batch_query_copies_criteria:
  "map glog_address (gw_logs (batch_query D req)) = map address (listed (logs (request req))) \<and>
   map glog_topics (gw_logs (batch_query D req)) =
     map (\<lambda>l. listed (topics_filter l)) (listed (logs (request req))) \<and>
   map gtx_from (gw_transactions (batch_query D req)) =
     map tx_from (listed (transactions (request req))) \<and>
   map gtx_to (gw_transactions (batch_query D req)) =
     map tx_to (listed (transactions (request req))) \<and>
   map gtx_sighash (gw_transactions (batch_query D req)) =
     map sighash (listed (transactions (request req)))"
  by (simp add: batch_query_def Let_def listed_def comp_def split: option.splits)

text \<open>
  Every sub-query of the first query asks for the always-on fields of its own entity
  and of the block.
\<close>

lemma sub_queries_keep_always_on:
  "(\<forall>t \<in> set (gw_transactions (batch_query D req)).
      enabled (fs_block (gtx_fieldSelection t)) ''hash'' \<and>
      enabled (fs_block (gtx_fieldSelection t)) ''number'' \<and>
      enabled (fs_transaction (gtx_fieldSelection t)) ''index'') \<and>
   (\<forall>l \<in> set (gw_logs (batch_query D req)).
      enabled (fs_block (glog_fieldSelection l)) ''hash'' \<and>
      enabled (fs_block (glog_fieldSelection l)) ''number'' \<and>
      enabled (fs_log (glog_fieldSelection l)) ''index'' \<and>
      enabled (fs_log (glog_fieldSelection l)) ''transactionIndex'')"
  by (auto simp: batch_query_def Let_def toFieldSelection_def enabled_def update_conv'
      split: option.splits)

text \<open>
  A second query is posted exactly when the highest block of the reply is not at
  \<open>nextBlock - 1\<close>.
\<close>

lemma second_query_iff:
  assumes "post (batch_query D req) = Inr res"
    and "map_throwing (tryMapGatewayBlock ext) (concat (data res)) = Inr bs"
  shows "(length (fst (getFinalizedBatch ext D post req)) = 2) =
         (map_option (\<lambda>b. height (header b)) (maybeLast (sort_by (by_height ext) bs))
            \<noteq> Some (JNumber (nextBlock res - 1)))"
  using assms
  by (auto simp: getFinalizedBatch_def Let_def query_def split: sum.splits)

text \<open>
  C6, as stated, fails: the follow-up query does not ask for header fields only. Its
  one transaction sub-query carries the whole field selection of the request, with the
  transaction and log masks: for the request with no fields set, against the archive
  with no data up to block 50, the second body posted is the following.
\<close>

theorem follow_up_carries_full_projection:
  "fst (getFinalizedBatch example_externals DEFAULT_FIELDS (silent_archive 50) example_request) =
     [batch_query DEFAULT_FIELDS example_request,
      \<lparr>fromBlock = 50, toBlock = Some 50, gw_includeAllBlocks = True,
       gw_transactions =
         [\<lparr>gtx_to = None, gtx_from = None, gtx_sighash = None,
           gtx_fieldSelection =
             \<lparr>fs_block = Some [(''number'', Some True), (''hash'', Some True),
                                (''parentHash'', Some True), (''timestamp'', Some True)],
              fs_transaction = Some [(''hash'', Some True), (''from'', Some True),
                                (''to'', Some True), (''input'', Some True),
                                (''index'', Some True)],
              fs_log = Some [(''address'', Some True), (''topics'', Some True),
                                (''data'', Some True), (''transactionHash'', Some True),
                                (''index'', Some True), (''transactionIndex'', Some True)]\<rparr>\<rparr>],
       gw_logs = []\<rparr>]"
  unfolding silent_archive_batch
  by (simp add: fetchBlockHeader_query_def toFieldSelection_def DEFAULT_FIELDS_def
      mergeDefaultFields_def Let_def)

text \<open>
  C6, amended. Whenever \<open>getFinalizedBatch\<close> posts a second query, it posts no third;
  the second is a single-height query (\<open>toBlock = fromBlock\<close>) with
  \<open>includeAllBlocks: true\<close>, no log sub-query and one transaction sub-query without
  filters whose field projection is the full selection that \<open>toFieldSelection\<close> gives for
  the request; and a batch that is then returned has \<open>range.to\<close> at that height and ends
  with a block whose items are empty.
\<close>

theorem follow_up_query:
  assumes run: "getFinalizedBatch ext D post req = (q1 # q2 # qs, r)"
  shows "qs = [] \<and> q1 = batch_query D req \<and>
         gw_includeAllBlocks q2 \<and> toBlock q2 = Some (fromBlock q2) \<and> gw_logs q2 = [] \<and>
         gw_transactions q2 =
           [\<lparr>gtx_to = None, gtx_from = None, gtx_sighash = None,
             gtx_fieldSelection = toFieldSelection D (req_fields (request req))\<rparr>] \<and>
         (\<forall>batch. r = Inr batch \<longrightarrow>
            fromBlock q2 = closed_to (resp_range batch) \<and> blocks batch \<noteq> [] \<and>
            items (last (blocks batch)) = [])"
  using run
  by (auto simp: getFinalizedBatch_def Let_def query_def fetchBlockHeader_query_def
      split: sum.splits if_splits)

theorem follow_up_query_witness:
  "fst (getFinalizedBatch example_externals DEFAULT_FIELDS (silent_archive 50) example_request) =
     [batch_query DEFAULT_FIELDS example_request,
      fetchBlockHeader_query 50 (toFieldSelection DEFAULT_FIELDS None)] \<and>
   gw_includeAllBlocks (fetchBlockHeader_query 50 (toFieldSelection DEFAULT_FIELDS None)) \<and>
   gw_transactions (fetchBlockHeader_query 50 (toFieldSelection DEFAULT_FIELDS None)) =
     [\<lparr>gtx_to = None, gtx_from = None, gtx_sighash = None,
       gtx_fieldSelection =
         toFieldSelection DEFAULT_FIELDS (req_fields (request example_request))\<rparr>] \<and>
   fromBlock (fetchBlockHeader_query 50 (toFieldSelection DEFAULT_FIELDS None)) = 50"
proof -
  note w = follow_up_query[OF silent_archive_batch]
  from w have "gw_includeAllBlocks (fetchBlockHeader_query 50 (toFieldSelection DEFAULT_FIELDS None))"
    by blast
  moreover from w have
    "gw_transactions (fetchBlockHeader_query 50 (toFieldSelection DEFAULT_FIELDS None)) =
       [\<lparr>gtx_to = None, gtx_from = None, gtx_sighash = None,
         gtx_fieldSelection =
           toFieldSelection DEFAULT_FIELDS (req_fields (request example_request))\<rparr>]"
    by blast
  moreover from w have
    "fromBlock (fetchBlockHeader_query 50 (toFieldSelection DEFAULT_FIELDS None)) = 50"
    by simp
  ultimately show ?thesis by (simp add: silent_archive_batch)
qed

section \<open>Properties of the change log\<close>

subsection \<open>Rows written by the tracker\<close>

lemma upt_Suc_shift: "[i ..< i + Suc n] = i # [Suc i ..< Suc i + n]"
  by (subst upt_rec) simp

lemma zip_rows:
  "map (\<lambda>(h, i, c). \<lparr>block_height = h, index = i, change = c\<rparr>)
     (zip (replicate (length cs) h) (zip [i ..< i + length cs] cs)) = change_rows h i cs"
proof (induction cs arbitrary: i)
  case Nil
  then show ?case by simp
next
  case (Cons c cs)
  have "[i ..< i + length (c # cs)] = i # [Suc i ..< Suc i + length cs]"
    using upt_Suc_shift[of i "length cs"] by simp
  then show ?case using Cons.IH[of "Suc i"] by (simp del: upt_Suc)
qed

lemma map_change_rows [simp]: "map change (change_rows h i cs) = cs"
  by (induction cs arbitrary: i) simp_all

lemma writeChangeRows_Inr:
  assumes "writeChangeRows tr cs db = Inr (tr', db')"
  shows "tr' = tr\<lparr>tracker_index := tracker_index tr + length cs\<rparr>"
    and "db' = db\<lparr>hot_change_log := hot_change_log db @
                 change_rows (blockHeight tr) (tracker_index tr) cs\<rparr>"
  using assms
  by (auto simp: writeChangeRows_def writeChangeRows_sql_def em_query_def zip_rows
      split: sum.splits if_splits)

lemma row_fields_lookup:
  "map_of (row_fields cols r) c = (if c \<in> set cols then r c else None)"
  by (induction cols) (auto simp: row_fields_def List.map_filter_simps split: option.splits)

lemma row_fields_keys: "set (map fst (row_fields cols r)) \<subseteq> set cols"
  by (induction cols) (auto simp: row_fields_def List.map_filter_simps split: option.splits)

lemma row_fields_all_keys:
  "set cols \<subseteq> dom r \<Longrightarrow> map fst (row_fields cols r) = cols"
  by (induction cols) (auto simp: row_fields_def List.map_filter_simps split: option.splits)

lemma select_entities_lookup:
  "map_of (rev (fetchEntities t ids db)) i =
     (if i \<in> set ids then map_option (row_fields (columns db t)) (tables db t i) else None)"
proof -
  have d: "distinct (map fst (fetchEntities t ids db))"
    unfolding fetchEntities_def fetchEntities_sql_def
    by (simp add: map_filter_def comp_def distinct_map_filter split: option.splits)
       (auto simp: distinct_map inj_on_def)
  have "map_of (rev (fetchEntities t ids db)) = map_of (fetchEntities t ids db)"
    using d by (metis distinct_rev map_of_inject_set rev_map set_rev)
  then have "map_of (rev (fetchEntities t ids db)) i = map_of (fetchEntities t ids db) i"
    by simp
  also have "map_of (fetchEntities t ids db) i =
     (if i \<in> set ids then map_option (row_fields (columns db t)) (tables db t i) else None)"
  proof -
    have "\<And>xs. map_of (List.map_filter
         (\<lambda>i. map_option (\<lambda>r. (i, row_fields (columns db t) r)) (tables db t i)) xs) i
       = (if i \<in> set xs then map_option (row_fields (columns db t)) (tables db t i) else None)"
      subgoal for xs by (induction xs) (auto simp: List.map_filter_simps split: option.splits)
      done
    then show ?thesis by (simp add: fetchEntities_def fetchEntities_sql_def)
  qed
  finally show ?thesis .
qed

lemma trackUpsert_records:
  assumes "accepted (fetchEntities_sql t (map entity_id es))"
  shows "trackUpsert tr t es db = writeChangeRows tr (map (upsert_record db t) es) db"
proof -
  have "map (\<lambda>e. case map_of (rev (fetchEntities t (map entity_id es) db)) (entity_id e) of
                        Some flds \<Rightarrow> UpdateRecord t (entity_id e) flds
                      | None \<Rightarrow> InsertRecord t (entity_id e)) es
      = map (upsert_record db t) es"
    by (rule map_cong[OF refl])
       (auto simp: select_entities_lookup upsert_record_def split: option.splits)
  with assms show ?thesis by (simp only: trackUpsert_def Let_def not_True_eq_False if_False)
qed

subsection \<open>What the database makes of the statements\<close>

text \<open>
  A text with a question mark after its last double quote does not parse, wherever the
  scan stands before it: outside a quoted identifier the question mark is refused,
  inside one the identifier is never closed.
\<close>

lemma pg_scan_unclosed: "CHR 0x22 \<notin> set ys \<Longrightarrow> pg_scan True ys = False"
  by (induction ys) auto

lemma pg_scan_question_mark:
  "CHR 0x22 \<notin> set ys \<Longrightarrow> CHR ''?'' \<in> set ys \<Longrightarrow> pg_scan quoted ys = False"
  by (cases quoted) (simp add: pg_scan_unclosed, induction ys, auto)

lemma pg_scan_append_question_mark:
  "CHR 0x22 \<notin> set ys \<Longrightarrow> CHR ''?'' \<in> set ys \<Longrightarrow> pg_scan quoted (xs @ ys) = False"
  by (induction xs arbitrary: quoted) (simp_all add: pg_scan_question_mark)

lemma pg_scan_skip:
  "CHR 0x22 \<notin> set xs \<Longrightarrow> quoted \<or> CHR ''?'' \<notin> set xs \<Longrightarrow>
   pg_scan quoted (xs @ ys) = pg_scan quoted ys"
  by (induction xs) auto

text \<open>
  The statements of \<open>rollbackBlock\<close> that carry question marks do not parse, whatever
  the names in them.
\<close>

lemma SelectChanges_rejected: "\<not> postgres_parses (SelectChanges s h)"
proof -
  have "pg_scan False
         ((''SELECT block_height, index, change FROM '' @ ident_text double_quoted s) @
        ''.hot_change_log WHERE block_height = ? ORDER BY index DESC'') = False"
    by (rule pg_scan_append_question_mark) simp_all
  then show ?thesis by (simp add: postgres_parses_def)
qed

lemma DeleteHotBlock_rejected: "\<not> postgres_parses (DeleteHotBlock s h)"
proof -
  have "pg_scan False
         ((''DELETE FROM '' @ ident_text double_quoted s) @ ''.hot_block WHERE height = ?'') = False"
    by (rule pg_scan_append_question_mark) simp_all
  then show ?thesis by (simp add: postgres_parses_def)
qed

lemma UpdateEntity_rejected: "\<not> postgres_parses (UpdateEntity t cols vals i)"
proof -
  have "pg_scan False
         ((''UPDATE '' @ ident_text double_quoted t @ '' SET '' @
         join '', '' (map (\<lambda>c. ident_text double_quoted c @ '' = ?'') cols)) @
        '' WHERE id = ?'') = False"
    by (rule pg_scan_append_question_mark) simp_all
  then show ?thesis by (simp add: postgres_parses_def)
qed

text \<open>
  The statements with numbered placeholders parse: the \<open>DELETE\<close> of \<open>rollbackBlock\<close> and
  the \<open>SELECT\<close> of the tracker, for a table name without a double quote.
\<close>

lemma numbered_placeholders_accepted:
  assumes "t \<noteq> []" and "CHR 0x22 \<notin> set t"
  shows "accepted (DeleteEntity (Escaped t) i) \<and> accepted (fetchEntities_sql t ids)"
proof -
  have "pg_scan True (t @ CHR 0x22 # ys) = pg_scan False ys" for ys
    using pg_scan_skip[of t True "CHR 0x22 # ys"] assms(2) by simp
  with assms show ?thesis
    by (simp add: accepted_def postgres_parses_def fetchEntities_sql_def double_quoted_def)
qed

text \<open>
  C1 fails in \<open>rollbackBlock\<close>: its first statement, the \<open>SELECT\<close> of the block's change
  records, marks the block height with a question mark, which is not a placeholder of
  the database that the tracker's own statements are written for (\<open>$1::text[]\<close>,
  \<open>unnest\<close>, \<open>::jsonb\<close>, and \<open>$1\<close> in the \<open>DELETE\<close> of the same function). The database
  refuses the statement, so \<open>rollbackBlock\<close> ends with that error for every schema,
  store and block, and restores nothing.
\<close>

theorem rollbackBlock_rejected_by_database:
  "rollbackBlock s db h = Inl (QueryFailedError ''syntax error'')"
  by (simp add: rollbackBlock_def select_changes_def accepted_def SelectChanges_rejected)

subsection \<open>The records of an upsert\<close>

lemma row_fields_map_of:
  assumes "dom r = set cols"
  shows "map_of (row_fields cols r) = r"
proof
  fix c
  show "map_of (row_fields cols r) c = r c"
  proof (cases "c \<in> set cols")
    case True
    then show ?thesis by (simp add: row_fields_lookup)
  next
    case False
    with assms have "r c = None" by auto
    with False show ?thesis by (simp add: row_fields_lookup)
  qed
qed

lemma squid_schema: "plain_identifier ''squid'' \<and> toLowerCase ''squid'' = ''squid''"
  by code_simp

lemma upsert_records_kinds: "list_all is_insert_or_update (map (upsert_record db t) es)"
  by (induction es) (auto simp: is_insert_or_update_def upsert_record_def split: option.splits)

text \<open>
  C8. \<open>trackUpsert\<close> selects the rows of the table whose ids are those of the entities
  and writes, for each entity in order, the record of \<open>upsert_record\<close>: an update with
  the pre-image of the row when the id was found, an insert when it was not. When the
  call succeeds, exactly these records are appended to the log of the tracker's block
  with consecutive indices, and the tables are untouched. No record is a delete. In a
  well-formed database the pre-image of an update names every column of the table
  and holds the row's values.
\<close>

theorem trackUpsert_emits_update_or_insert:
  assumes "trackUpsert tr t es db = Inr (tr', db')"
  shows "trackUpsert tr t es db = writeChangeRows tr (map (upsert_record db t) es) db \<and>
         (\<forall>i. map_of (rev (fetchEntities t (map entity_id es) db)) i =
            (if i \<in> set (map entity_id es)
             then map_option (row_fields (columns db t)) (tables db t i) else None)) \<and>
         hot_change_log db' =
           hot_change_log db @
           change_rows (blockHeight tr) (tracker_index tr) (map (upsert_record db t) es) \<and>
         tracker_index tr' = tracker_index tr + length es \<and>
         tables db' = tables db \<and>
         list_all is_insert_or_update (map (upsert_record db t) es) \<and>
         (well_formed db \<longrightarrow>
            (\<forall>i r. tables db t i = Some r \<longrightarrow>
               map fst (row_fields (columns db t) r) = columns db t \<and>
               map_of (row_fields (columns db t) r) = r))"
proof -
  from assms have acc: "accepted (fetchEntities_sql t (map entity_id es))"
    by (auto simp: trackUpsert_def split: if_splits)
  from assms have w: "writeChangeRows tr (map (upsert_record db t) es) db = Inr (tr', db')"
    by (simp add: trackUpsert_records[OF acc])
  note L = writeChangeRows_Inr[OF w]
  have pre: "map fst (row_fields (columns db t) r) = columns db t \<and>
             map_of (row_fields (columns db t) r) = r"
    if "well_formed db" and "tables db t i = Some r" for i r
  proof -
    from that have "dom r = set (columns db t)" by (auto simp: well_formed_def)
    then show ?thesis by (simp add: row_fields_all_keys row_fields_map_of)
  qed
  from pre show ?thesis
    by (simp add: trackUpsert_records[OF acc] select_entities_lookup upsert_records_kinds L)
qed

theorem trackUpsert_emits_update_or_insert_witness:
  "trackUpsert (new_ChangeTracker ''squid'' 7) ''item'' example_entities example_db =
     Inr (\<lparr>statusSchema = ''squid'', blockHeight = 7, tracker_index = 2\<rparr>,
          example_db
            \<lparr>hot_change_log :=
               [\<lparr>block_height = 7, index = 0,
                 change = UpdateRecord ''item'' ''1'' [(''name'', JString ''a'')]\<rparr>,
                \<lparr>block_height = 7, index = 1, change = InsertRecord ''item'' ''2''\<rparr>]\<rparr>) \<and>
   map (upsert_record example_db ''item'') example_entities =
     [UpdateRecord ''item'' ''1'' [(''name'', JString ''a'')], InsertRecord ''item'' ''2'']"
proof -
  have run: "trackUpsert (new_ChangeTracker ''squid'' 7) ''item'' example_entities example_db =
     Inr (\<lparr>statusSchema = ''squid'', blockHeight = 7, tracker_index = 2\<rparr>,
          example_db
            \<lparr>hot_change_log :=
               [\<lparr>block_height = 7, index = 0,
                 change = UpdateRecord ''item'' ''1'' [(''name'', JString ''a'')]\<rparr>,
                \<lparr>block_height = 7, index = 1, change = InsertRecord ''item'' ''2''\<rparr>]\<rparr>)"
    by (simp add: example_entities_def example_db_def new_ChangeTracker_def trackUpsert_def
        writeChangeRows_def writeChangeRows_sql_def fetchEntities_def fetchEntities_sql_def
        em_query_def accepted_def postgres_parses_def double_quoted_def squid_schema
        List.map_filter_simps row_fields_def Let_def)
  from trackUpsert_emits_update_or_insert[OF run]
  have "hot_change_log (example_db
            \<lparr>hot_change_log :=
               [\<lparr>block_height = 7, index = 0,
                 change = UpdateRecord ''item'' ''1'' [(''name'', JString ''a'')]\<rparr>,
                \<lparr>block_height = 7, index = 1, change = InsertRecord ''item'' ''2''\<rparr>]\<rparr>) =
        hot_change_log example_db @
        change_rows (blockHeight (new_ChangeTracker ''squid'' 7))
          (tracker_index (new_ChangeTracker ''squid'' 7))
          (map (upsert_record example_db ''item'') example_entities)"
    by blast
  then have "map change
        [\<lparr>block_height = 7, index = 0,
          change = UpdateRecord ''item'' ''1'' [(''name'', JString ''a'')]\<rparr>,
         \<lparr>block_height = 7, index = 1, change = InsertRecord ''item'' ''2''\<rparr>] =
      map change (hot_change_log example_db @
        change_rows (blockHeight (new_ChangeTracker ''squid'' 7))
          (tracker_index (new_ChangeTracker ''squid'' 7))
          (map (upsert_record example_db ''item'') example_entities))"
    by simp
  then have "map (upsert_record example_db ''item'') example_entities =
     [UpdateRecord ''item'' ''1'' [(''name'', JString ''a'')], InsertRecord ''item'' ''2'']"
    by (simp add: example_db_def)
  with run show ?thesis by simp
qed

subsection \<open>Identifiers in the statements\<close>

text \<open>
  The statements of \<open>rollbackBlock\<close> and the \<open>SELECT\<close> of the tracker interpolate escaped
  identifiers only.
\<close>

lemma rollback_sql_escaped:
  "rollback_sql c = Some q \<Longrightarrow> i \<in> set (idents q) \<Longrightarrow> \<exists>n. i = Escaped n"
  by (cases c) (auto split: if_splits)

lemma rollbackBlock_and_fetchEntities_escape:
  "(\<forall>q \<in> set (rollbackBlock_sql s changes h). \<forall>i \<in> set (idents q). \<exists>n. i = Escaped n) \<and>
   (\<forall>i \<in> set (idents (fetchEntities_sql t ids)). \<exists>n. i = Escaped n)"
  by (auto simp: rollbackBlock_sql_def fetchEntities_sql_def List.map_filter_def
      dest: rollback_sql_escaped)

text \<open>The \<open>INSERT\<close> of the tracker interpolates the status schema as it is.\<close>

lemma writeChangeRows_sql_idents:
  "idents (writeChangeRows_sql tr changes) = [Raw (statusSchema tr)]"
  by (simp add: writeChangeRows_sql_def)

text \<open>
  C9 fails in \<open>writeChangeRows\<close>: the \<open>INSERT\<close> into the change log interpolates the status
  schema as it is, while \<open>rollbackBlock\<close> escapes the same name. For the schema
  \<open>squid status\<close> and the driver that puts names between double quotes, the tracker's
  statement names \<open>squid status.hot_change_log\<close> and the rollback's names the quoted
  schema.
\<close>

theorem writeChangeRows_interpolates_raw_schema:
  "idents (writeChangeRows_sql (new_ChangeTracker ''squid status'' 7)
     [InsertRecord ''item'' ''1'']) = [Raw ''squid status''] \<and>
   sql_text double_quoted (writeChangeRows_sql (new_ChangeTracker ''squid status'' 7)
     [InsertRecord ''item'' ''1'']) =
     ''INSERT INTO squid status.hot_change_log (block_height, index, change)'' @
     '' SELECT block_height, index, change::jsonb'' @
     '' FROM unnest($1::int[], $2::int[], $3::text[]) AS i(block_height, index, change)'' \<and>
   idents (SelectChanges (Escaped ''squid status'') 7) = [Escaped ''squid status''] \<and>
   sql_text double_quoted (SelectChanges (Escaped ''squid status'') 7) =
     ''SELECT block_height, index, change FROM '' @ [CHR 0x22] @ ''squid status'' @ [CHR 0x22] @
     ''.hot_change_log WHERE block_height = ? ORDER BY index DESC''"
  by (simp add: writeChangeRows_sql_def new_ChangeTracker_def double_quoted_def)

text \<open>
  The database refuses the tracker's statement for that schema, which is a name only
  between double quotes.
\<close>

lemma not_plain_squid_status: "\<not> plain_identifier ''squid status''"
  by code_simp

lemma raw_schema_refused:
  "writeChangeRows (new_ChangeTracker ''squid status'' 7) cs db =
     Inl (QueryFailedError ''syntax error'')"
  by (simp add: writeChangeRows_def em_query_def accepted_def writeChangeRows_sql_def
      new_ChangeTracker_def not_plain_squid_status)

end
